theory Spec2Isabelle
  imports Complex_Main "HOL-Library.AList" "HOL-Library.Sublist"
begin

section \<open>Python values\<close>

text \<open>
  The module is dynamically typed glue around a JSON configuration file, so the model
  works on Python values. \<open>PDict\<close> is a dictionary decoded from JSON: its keys are
  strings, no key occurs twice, and it keeps the order of the file. \<open>PFloat\<close> is a float other than NaN,
  \<open>PNan\<close> is the float NaN. \<open>PList\<close> also stands for a numpy array of values.
\<close>

datatype pyval =
    PNone
  | PBool bool
  | PInt int
  | PFloat real
  | PNan
  | PStr string
  | PList "pyval list"
  | PTuple "pyval list"
  | PDict "(string \<times> pyval) list"

datatype error =
    KeyError
  | IndexError
  | TypeError
  | ValueError
  | AttributeError
  | UnboundLocalError
  | IOError
  | OSError
  | ExternalError string

text \<open>Sequencing of calls that may raise: the first exception ends the computation.\<close>

definition ebind :: "error + 'a \<Rightarrow> ('a \<Rightarrow> error + 'b) \<Rightarrow> error + 'b" where
  "ebind m f = (case m of Inl e \<Rightarrow> Inl e | Inr x \<Rightarrow> f x)"

fun hashable :: "pyval \<Rightarrow> bool" where
  "hashable (PList xs) = False"
| "hashable (PDict kvs) = False"
| "hashable (PTuple xs) = list_all hashable xs"
| "hashable v = True"

text \<open>\<open>xs[i]\<close> on a sequence: a negative index counts from the end.\<close>

definition seq_item :: "'a list \<Rightarrow> int \<Rightarrow> error + 'a" where
  "seq_item xs i =
     (if 0 \<le> i \<and> i < int (length xs) then Inr (xs ! nat i)
      else if i < 0 \<and> - int (length xs) \<le> i then Inr (xs ! nat (int (length xs) + i))
      else Inl IndexError)"

text \<open>
  \<open>obj[key]\<close>. A dictionary decoded from JSON has string keys only, so any other
  hashable key is missing from it. A boolean used as a sequence index is the integer 0 or 1.
\<close>

definition dict_item :: "(string \<times> pyval) list \<Rightarrow> pyval \<Rightarrow> error + pyval" where
  "dict_item kvs key =
     (case key of
        PStr k \<Rightarrow> (case map_of kvs k of None \<Rightarrow> Inl KeyError | Some v \<Rightarrow> Inr v)
      | _ \<Rightarrow> if hashable key then Inl KeyError else Inl TypeError)"

definition index_of_key :: "pyval \<Rightarrow> error + int" where
  "index_of_key key =
     (case key of
        PInt i \<Rightarrow> Inr i
      | PBool b \<Rightarrow> Inr (if b then 1 else 0)
      | _ \<Rightarrow> Inl TypeError)"

definition subscript :: "pyval \<Rightarrow> pyval \<Rightarrow> error + pyval" where
  "subscript obj key =
     (case obj of
        PDict kvs \<Rightarrow> dict_item kvs key
      | PList xs \<Rightarrow> ebind (index_of_key key) (seq_item xs)
      | PTuple xs \<Rightarrow> ebind (index_of_key key) (seq_item xs)
      | PStr s \<Rightarrow> ebind (index_of_key key) (\<lambda>i. ebind (seq_item s i) (\<lambda>c. Inr (PStr [c])))
      | _ \<Rightarrow> Inl TypeError)"

text \<open>\<open>for x in obj\<close>: the elements of a sequence, the keys of a dictionary, the
  characters of a string; anything else is not iterable.\<close>

definition iterate :: "pyval \<Rightarrow> error + pyval list" where
  "iterate obj =
     (case obj of
        PList xs \<Rightarrow> Inr xs
      | PTuple xs \<Rightarrow> Inr xs
      | PDict kvs \<Rightarrow> Inr (map (\<lambda>kv. PStr (fst kv)) kvs)
      | PStr s \<Rightarrow> Inr (map (\<lambda>c. PStr [c]) s)
      | _ \<Rightarrow> Inl TypeError)"

text \<open>\<open>"literal" in obj\<close>.\<close>

definition py_in :: "string \<Rightarrow> pyval \<Rightarrow> error + bool" where
  "py_in s obj =
     (case obj of
        PList xs \<Rightarrow> Inr (PStr s \<in> set xs)
      | PTuple xs \<Rightarrow> Inr (PStr s \<in> set xs)
      | PDict kvs \<Rightarrow> Inr (s \<in> set (map fst kvs))
      | PStr t \<Rightarrow> Inr (sublist s t)
      | _ \<Rightarrow> Inl TypeError)"

text \<open>An operand of \<open>+\<close> next to a string literal: anything but a string raises.\<close>

definition str_operand :: "pyval \<Rightarrow> error + string" where
  "str_operand v = (case v of PStr s \<Rightarrow> Inr s | _ \<Rightarrow> Inl TypeError)"

text \<open>A dictionary built by the code itself: keys in insertion order, looked up by key.\<close>

definition dict_get :: "('k \<times> 'v) list \<Rightarrow> 'k \<Rightarrow> error + 'v" where
  "dict_get d k = (case map_of d k of None \<Rightarrow> Inl KeyError | Some v \<Rightarrow> Inr v)"


section \<open>Subjects, the environment and the Experiment object\<close>

text \<open>The data source handed to every Subject: the engine created for a database URL,
  or the directory of per-subject files.\<close>

datatype database = Engine string | Directory string

text \<open>
  Modelled from the spec: the Subject class (Subject.py) is an external collaborator whose
  source is not part of Experiment.py. A subject object keeps its constructor arguments;
  \<open>name\<close>, \<open>subj_type\<close>, \<open>stimulus\<close> and \<open>aggregate_meta\<close> are the attributes
  Experiment.py reads. \<open>aggregate_meta\<close> maps a stimulus type to the indicators extracted
  for it, \<open>stimulus\<close> maps a stimulus category to its stimulus objects, each given by the
  metadata of its sensors.
\<close>

record subject =
  sub_path :: pyval
  name :: pyval
  subj_type :: pyval
  sub_stimuli :: "(pyval \<times> pyval) list"
  sub_columns :: "pyval list"
  sub_json_file :: string
  sub_sensors :: "string list"
  database :: database
  reading_method :: string
  sub_aoi_coords :: pyval
  stimulus :: "(pyval \<times> (string \<times> pyval) list list) list"
  aggregate_meta :: "(string \<times> (string \<times> pyval) list) list"

text \<open>
  A pandas dataframe: its column names and its rows, in the order they were added.
  A call of the statistics library (pingouin) is given by the function called, the
  dependent variable, the factors and the dataframe.
\<close>

record frame =
  df_columns :: "string list"
  df_rows :: "pyval list list"

datatype pg_call =
    mixed_anova string string string frame
  | pairwise_ttests_single string string string frame
  | rm_anova string "string list" frame
  | pairwise_ttests string "string list" "string list" frame
  | anova string "string list" frame

text \<open>
  Everything Experiment.py obtains from outside itself:
  \<^item> \<open>files\<close>: the value \<open>json.load\<close> decodes from a file, \<open>None\<close> when the file
    cannot be opened or decoded;
  \<^item> \<open>meta_cols\<close>: the table \<open>Sensor.meta_cols\<close> (indicator names by sensor type);
  \<^item> \<open>subject_stimulus\<close>: the stimulus objects the Subject constructor loads for a subject;
  \<^item> \<open>subjectAnalysis\<close>: the indicators \<open>Subject.subjectAnalysis\<close> extracts, or its exception;
  \<^item> \<open>isnan\<close>: the truth value of \<open>np.isnan(value)\<close>, or its exception;
  \<^item> \<open>pingouin\<close>: the exception a statistics call raises, if any;
  \<^item> \<open>selection\<close>: the rectangle drawn in the window of drawAOI, or the exception of
    the plotting library;
  \<^item> \<open>isdir\<close>, \<open>makedirs\<close>: the directory tree.
  The environment is the same for all calls: the configuration file is not rewritten
  between the constructor and the methods that read it again.
\<close>

record env =
  files :: "string \<Rightarrow> pyval option"
  meta_cols :: "(string \<times> string list) list"
  subject_stimulus :: "pyval \<Rightarrow> (pyval \<times> (string \<times> pyval) list list) list"
  subjectAnalysis :: "subject \<Rightarrow> bool \<Rightarrow> bool \<Rightarrow> error + (string \<times> (string \<times> pyval) list) list"
  isnan :: "pyval \<Rightarrow> error + bool"
  pingouin :: "pg_call \<Rightarrow> error option"
  selection :: "error + int \<times> int \<times> int \<times> int"
  isdir :: "string \<Rightarrow> bool"
  makedirs :: "string \<Rightarrow> error option"

text \<open>
  The Experiment object. \<open>meta_matrix_dict\<close> is the indicator matrix, the second
  component of the attribute of that name: a dictionary from indicator name to a 2D object
  array, given as the list of its rows. (The first component, an array of subject type
  labels, is written by metaMatrixInitialisation and read nowhere.)
\<close>

record Experiment =
  path :: pyval
  exp_name :: pyval
  json_file :: string
  sensors :: "string list"
  aoi_coords :: pyval
  columns :: "pyval list"
  stimuli :: "(pyval \<times> pyval) list"
  subjects :: "subject list"
  meta_matrix_dict :: "(string \<times> pyval list list) list"

text \<open>\<open>json.load(open(file))\<close>: any failure to open or decode the file is the one
  error \<open>IOError\<close> here.\<close>

definition load :: "env \<Rightarrow> string \<Rightarrow> error + pyval" where
  "load env file = (case files env file of None \<Rightarrow> Inl IOError | Some json_data \<Rightarrow> Inr json_data)"

definition Subject ::
  "env \<Rightarrow> pyval \<Rightarrow> pyval \<Rightarrow> pyval \<Rightarrow> (pyval \<times> pyval) list \<Rightarrow> pyval list \<Rightarrow> string \<Rightarrow>
   string list \<Rightarrow> database \<Rightarrow> string \<Rightarrow> pyval \<Rightarrow> subject" where
  "Subject env p subject_name k stims cols file sens db method aoi =
     \<lparr>sub_path = p, name = subject_name, subj_type = k, sub_stimuli = stims,
      sub_columns = cols, sub_json_file = file, sub_sensors = sens, database = db,
      reading_method = method, sub_aoi_coords = aoi,
      stimulus = subject_stimulus env subject_name, aggregate_meta = []\<rparr>"

subsection \<open>stimuliArrayInitialisation\<close>

text \<open>\<open>for k in stimuli_data: data_dict[k] = stimuli_data[k]\<close>\<close>

fun stimuli_loop :: "pyval \<Rightarrow> pyval list \<Rightarrow> (pyval \<times> pyval) list \<Rightarrow> error + (pyval \<times> pyval) list" where
  "stimuli_loop stimuli_data [] data_dict = Inr data_dict"
| "stimuli_loop stimuli_data (k # ks) data_dict =
     ebind (subscript stimuli_data k) (\<lambda>v.
       stimuli_loop stimuli_data ks (AList.update k v data_dict))"

definition stimuliArrayInitialisation :: "env \<Rightarrow> Experiment \<Rightarrow> error + (pyval \<times> pyval) list" where
  "stimuliArrayInitialisation env self =
     ebind (load env (json_file self)) (\<lambda>json_data.
     ebind (subscript json_data (PStr ''Stimuli'')) (\<lambda>stimuli_data.
     ebind (iterate stimuli_data) (\<lambda>ks.
       stimuli_loop stimuli_data ks [])))"

subsection \<open>subjectArrayInitialisation\<close>

text \<open>
  The local variable \<open>database\<close> is assigned in the branches for "SQL" and "CSV" only;
  \<open>None\<close> is the unassigned variable, whose first use raises UnboundLocalError.
\<close>

definition select_database :: "Experiment \<Rightarrow> pyval \<Rightarrow> string \<Rightarrow> error + database option" where
  "select_database self json_data method =
     (if method = ''SQL'' then
        ebind (subscript json_data (PStr ''Experiment_name'')) (\<lambda>name_of_database.
        ebind (str_operand (path self)) (\<lambda>p.
        ebind (str_operand name_of_database) (\<lambda>n.
          Inr (Some (Engine (''sqlite:///'' @ p @ ''/Data/'' @ n @ ''.db''))))))
      else if method = ''CSV'' then
        ebind (str_operand (path self)) (\<lambda>p. Inr (Some (Directory (p @ ''/Data/csv_files''))))
      else Inr None)"

text \<open>The inner loop \<open>for subject_name in subject_data[k]\<close>.\<close>

fun names_loop ::
  "env \<Rightarrow> Experiment \<Rightarrow> string \<Rightarrow> database option \<Rightarrow> pyval \<Rightarrow> pyval list \<Rightarrow> subject list \<Rightarrow>
   error + subject list" where
  "names_loop env self method db k [] subject_list = Inr subject_list"
| "names_loop env self method db k (subject_name # rest) subject_list =
     (case db of
        None \<Rightarrow> Inl UnboundLocalError
      | Some d \<Rightarrow>
          names_loop env self method db k rest
            (subject_list @
               [Subject env (path self) subject_name k (stimuli self) (columns self)
                  (json_file self) (sensors self) d method (aoi_coords self)]))"

text \<open>The outer loop \<open>for k in subject_data\<close>.\<close>

fun types_loop ::
  "env \<Rightarrow> Experiment \<Rightarrow> string \<Rightarrow> database option \<Rightarrow> pyval \<Rightarrow> pyval list \<Rightarrow> subject list \<Rightarrow>
   error + subject list" where
  "types_loop env self method db subject_data [] subject_list = Inr subject_list"
| "types_loop env self method db subject_data (k # ks) subject_list =
     ebind (subscript subject_data k) (\<lambda>listed.
     ebind (iterate listed) (\<lambda>subject_names.
     ebind (names_loop env self method db k subject_names subject_list) (\<lambda>subject_list'.
       types_loop env self method db subject_data ks subject_list')))"

definition subjectArrayInitialisation :: "env \<Rightarrow> Experiment \<Rightarrow> string \<Rightarrow> error + subject list" where
  "subjectArrayInitialisation env self method =
     ebind (load env (json_file self)) (\<lambda>json_data.
     ebind (subscript json_data (PStr ''Subjects'')) (\<lambda>subject_data.
     ebind (select_database self json_data method) (\<lambda>db.
     ebind (iterate subject_data) (\<lambda>ks.
       types_loop env self method db subject_data ks []))))"

subsection \<open>columnsArrayInitialisation\<close>

text \<open>\<open>for col_class in column_classes: for name in json_data["Columns_of_interest"][col_class]\<close>\<close>

fun columns_loop :: "pyval \<Rightarrow> string list \<Rightarrow> pyval list \<Rightarrow> error + pyval list" where
  "columns_loop json_data [] column_list = Inr column_list"
| "columns_loop json_data (col_class # rest) column_list =
     ebind (subscript json_data (PStr ''Columns_of_interest'')) (\<lambda>of_interest.
     ebind (subscript of_interest (PStr col_class)) (\<lambda>listed.
     ebind (iterate listed) (\<lambda>names.
       columns_loop json_data rest (column_list @ names))))"

definition columnsArrayInitialisation :: "env \<Rightarrow> Experiment \<Rightarrow> error + pyval list" where
  "columnsArrayInitialisation env self =
     ebind (load env (json_file self)) (\<lambda>json_data.
       columns_loop json_data (sensors self @ [''Extra'']) [])"

subsection \<open>drawAOI and the constructor\<close>

definition display :: "pyval \<Rightarrow> string \<Rightarrow> error + pyval" where
  "display json_data dimension =
     ebind (subscript json_data (PStr ''Analysis_Params'')) (\<lambda>params.
     ebind (subscript params (PStr ''EyeTracker'')) (\<lambda>tracker.
       subscript tracker (PStr dimension)))"

text \<open>drawAOI reads the display size, looks for a stimulus image under the experiment's
  path and returns the corners of the rectangle selected in the window.\<close>

definition drawAOI :: "env \<Rightarrow> Experiment \<Rightarrow> error + pyval" where
  "drawAOI env self =
     ebind (load env (json_file self)) (\<lambda>json_data.
     ebind (display json_data ''Display_width'') (\<lambda>display_width.
     ebind (display json_data ''Display_height'') (\<lambda>display_height.
     ebind (str_operand (path self)) (\<lambda>p.
     ebind (selection env) (\<lambda>(left_x, left_y, right_x, right_y).
       Inr (PTuple [PInt left_x, PInt left_y, PInt right_x, PInt right_y]))))))"

definition set_aoi :: "env \<Rightarrow> Experiment \<Rightarrow> pyval \<Rightarrow> pyval \<Rightarrow> error + pyval" where
  "set_aoi env self json_data aoi =
     (case aoi of
        PStr s \<Rightarrow>
          if s = ''draw'' then drawAOI env self
          else
            ebind (display json_data ''Display_width'') (\<lambda>w.
            ebind (display json_data ''Display_height'') (\<lambda>h.
              Inr (PTuple [PInt 0, PInt 0, w, h])))
      | _ \<Rightarrow> Inr aoi)"

definition make_subjects_dir :: "env \<Rightarrow> Experiment \<Rightarrow> error + Experiment" where
  "make_subjects_dir env self =
     ebind (str_operand (path self)) (\<lambda>p.
       if isdir env (p @ ''/Subjects/'') then Inr self
       else (case makedirs env (p @ ''/Subjects/'') of None \<Rightarrow> Inr self | Some e \<Rightarrow> Inl e))"

text \<open>\<open>Experiment(json_file, reading_method, sensors, aoi)\<close>\<close>

definition init :: "env \<Rightarrow> string \<Rightarrow> string \<Rightarrow> string list \<Rightarrow> pyval \<Rightarrow> error + Experiment" where
  "init env file method sens aoi =
     ebind (load env file) (\<lambda>json_data.
     ebind (subscript json_data (PStr ''Path'')) (\<lambda>p.
     ebind (subscript json_data (PStr ''Experiment_name'')) (\<lambda>n.
     let self0 = \<lparr>path = p, exp_name = n, json_file = file, sensors = sens, aoi_coords = PNone,
                   columns = [], stimuli = [], subjects = [], meta_matrix_dict = []\<rparr> in
     ebind (set_aoi env self0 json_data aoi) (\<lambda>coords.
     let self1 = self0\<lparr>aoi_coords := coords\<rparr> in
     ebind (columnsArrayInitialisation env self1) (\<lambda>cols.
     let self2 = self1\<lparr>columns := cols\<rparr> in
     ebind (stimuliArrayInitialisation env self2) (\<lambda>stims.
     let self3 = self2\<lparr>stimuli := stims\<rparr> in
     ebind (subjectArrayInitialisation env self3 method) (\<lambda>subs.
     let self4 = self3\<lparr>subjects := subs, meta_matrix_dict := []\<rparr> in
       make_subjects_dir env self4)))))))"


section \<open>metaMatrixInitialisation\<close>

text \<open>\<open>np.ndarray((len(self.subjects), len(self.stimuli)), dtype=object)\<close>: a new object
  array, every cell \<open>None\<close>.\<close>

definition new_matrix :: "Experiment \<Rightarrow> pyval list list" where
  "new_matrix self = replicate (length (subjects self)) (replicate (length (stimuli self)) PNone)"

text \<open>The first loop: one new array for every indicator name of every sensor type.\<close>

definition allocate :: "env \<Rightarrow> Experiment \<Rightarrow> (string \<times> pyval list list) list" where
  "allocate env self =
     fold (\<lambda>meta_col d. AList.update meta_col (new_matrix self) d)
       (concat (map snd (meta_cols env))) (meta_matrix_dict self)"

text \<open>\<open>d[meta][sub_index, stim_index] = v\<close>\<close>

definition set_cell ::
  "(string \<times> pyval list list) list \<Rightarrow> string \<Rightarrow> nat \<Rightarrow> nat \<Rightarrow> pyval \<Rightarrow>
   error + (string \<times> pyval list list) list" where
  "set_cell d meta i j v =
     ebind (dict_get d meta) (\<lambda>arr.
       if i < length arr \<and> j < length (arr ! i)
       then Inr (AList.update meta (arr[i := (arr ! i)[j := v]]) d)
       else Inl IndexError)"

text \<open>\<open>d[meta][sub_index, stim_index]\<close>, read.\<close>

definition matrix_item :: "(string \<times> pyval list list) list \<Rightarrow> string \<Rightarrow> nat \<Rightarrow> nat \<Rightarrow> error + pyval" where
  "matrix_item d meta i j =
     ebind (dict_get d meta) (\<lambda>arr.
       if i < length arr \<and> j < length (arr ! i) then Inr (arr ! i ! j) else Inl IndexError)"

text \<open>\<open>for meta in sub.aggregate_meta[stimuli_type]\<close>, over the items of that dictionary.
  The loops return the dictionary as it stands when they end, with the exception that
  ended them, if any.\<close>

fun fill_metas ::
  "(string \<times> pyval list list) list \<Rightarrow> nat \<Rightarrow> nat \<Rightarrow> (string \<times> pyval) list \<Rightarrow>
   (string \<times> pyval list list) list \<times> error option" where
  "fill_metas d i j [] = (d, None)"
| "fill_metas d i j ((meta, v) # rest) =
     (case set_cell d meta i j v of
        Inl e \<Rightarrow> (d, Some e)
      | Inr d' \<Rightarrow> fill_metas d' i j rest)"

text \<open>\<open>for stim_index, stimuli_type in enumerate(sub.aggregate_meta)\<close>\<close>

fun fill_types ::
  "(string \<times> pyval list list) list \<Rightarrow> nat \<Rightarrow> nat \<Rightarrow> (string \<times> (string \<times> pyval) list) list \<Rightarrow>
   (string \<times> pyval list list) list \<times> error option" where
  "fill_types d i j [] = (d, None)"
| "fill_types d i j ((stimuli_type, metas) # rest) =
     (case fill_metas d i j metas of
        (d', Some e) \<Rightarrow> (d', Some e)
      | (d', None) \<Rightarrow> fill_types d' i (Suc j) rest)"

text \<open>\<open>for sub_index, sub in enumerate(self.subjects)\<close>: \<open>handled\<close> are the subjects
  already dealt with, so \<open>sub_index\<close> is their number.\<close>

fun fill_subjects ::
  "env \<Rightarrow> bool \<Rightarrow> bool \<Rightarrow> (string \<times> pyval list list) list \<Rightarrow> subject list \<Rightarrow> subject list \<Rightarrow>
   subject list \<times> (string \<times> pyval list list) list \<times> error option" where
  "fill_subjects env average_flag standardise_flag d handled [] = (handled, d, None)"
| "fill_subjects env average_flag standardise_flag d handled (sub # rest) =
     (case subjectAnalysis env sub average_flag standardise_flag of
        Inl e \<Rightarrow> (handled @ sub # rest, d, Some e)
      | Inr meta \<Rightarrow>
          (let sub' = sub\<lparr>aggregate_meta := meta\<rparr> in
           case fill_types d (length handled) 0 meta of
             (d', Some e) \<Rightarrow> (handled @ sub' # rest, d', Some e)
           | (d', None) \<Rightarrow>
               fill_subjects env average_flag standardise_flag d' (handled @ [sub']) rest))"

text \<open>The object after the call, and the exception the call raised, if any.\<close>

definition metaMatrixInitialisation ::
  "env \<Rightarrow> Experiment \<Rightarrow> bool \<Rightarrow> bool \<Rightarrow> Experiment \<times> error option" where
  "metaMatrixInitialisation env self standardise_flag average_flag =
     (case fill_subjects env average_flag standardise_flag (allocate env self) [] (subjects self) of
        (subs, d, raised) \<Rightarrow> (self\<lparr>subjects := subs, meta_matrix_dict := d\<rparr>, raised))"


section \<open>analyse\<close>

text \<open>What analyse prints, line by line of the source.\<close>

datatype message =
    NotInParameterList string
  | AnalysisFor string
  | BetweenNotDefined string
  | WithinNotDefined string
  | NullValue "pyval list"
  | ErrorInDataInstantiation
  | TestName string string
  | PrintTable pg_call

text \<open>A computation that prints and then returns or raises.\<close>

type_synonym 'a out = "message list \<times> (error + 'a)"

definition obind :: "'a out \<Rightarrow> ('a \<Rightarrow> 'b out) \<Rightarrow> 'b out" where
  "obind m f =
     (case m of
        (ms, Inl e) \<Rightarrow> (ms, Inl e)
      | (ms, Inr x) \<Rightarrow> (case f x of (ms', r) \<Rightarrow> (ms @ ms', r)))"

text \<open>\<open>pd.DataFrame(columns=column_list)\<close> and \<open>data.loc[len(data)] = row\<close>: pandas
  stores a row that has as many entries as the frame has columns, and raises ValueError
  for any other row.\<close>

definition DataFrame :: "string list \<Rightarrow> frame" where
  "DataFrame column_list = \<lparr>df_columns = column_list, df_rows = []\<rparr>"

definition loc_append :: "frame \<Rightarrow> pyval list \<Rightarrow> error + frame" where
  "loc_append data row =
     (if length row = length (df_columns data)
      then Inr (data\<lparr>df_rows := df_rows data @ [row]\<rparr>)
      else Inl ValueError)"

text \<open>\<open>json_data["Subjects"][sub.subj_type][sub.name][param]\<close>\<close>

definition between_value :: "pyval \<Rightarrow> subject \<Rightarrow> string \<Rightarrow> error + pyval" where
  "between_value json_data sub param =
     ebind (subscript json_data (PStr ''Subjects'')) (\<lambda>by_type.
     ebind (subscript by_type (subj_type sub)) (\<lambda>by_name.
     ebind (subscript by_name (name sub)) (\<lambda>factors.
       subscript factors (PStr param))))"

text \<open>The loop over \<open>between_factor_list\<close>: the values appended to the row and the
  messages printed. A factor whose lookup raises appends nothing.\<close>

fun between_factors :: "pyval \<Rightarrow> subject \<Rightarrow> string list \<Rightarrow> pyval list \<times> message list" where
  "between_factors json_data sub [] = ([], [])"
| "between_factors json_data sub (param # rest) =
     (case between_factors json_data sub rest of (vs, ms) \<Rightarrow>
        if param = ''Subject_type'' then (vs, ms)
        else (case between_value json_data sub param of
                Inl e \<Rightarrow> (vs, BetweenNotDefined param # ms)
              | Inr v \<Rightarrow> (v # vs, ms)))"

text \<open>\<open>stimulus_name = self.stimuli[stimuli_type][stimuli_index]\<close>, then
  \<open>json_data["Stimuli"][stimuli_type][stimulus_name][param]\<close>\<close>

definition within_value :: "Experiment \<Rightarrow> pyval \<Rightarrow> string \<Rightarrow> nat \<Rightarrow> string \<Rightarrow> error + pyval" where
  "within_value self json_data stimuli_type stimuli_index param =
     ebind (dict_get (stimuli self) (PStr stimuli_type)) (\<lambda>listed.
     ebind (subscript listed (PInt (int stimuli_index))) (\<lambda>stimulus_name.
     ebind (subscript json_data (PStr ''Stimuli'')) (\<lambda>by_type.
     ebind (subscript by_type (PStr stimuli_type)) (\<lambda>by_name.
     ebind (subscript by_name stimulus_name) (\<lambda>factors.
       subscript factors (PStr param))))))"

fun within_factors ::
  "Experiment \<Rightarrow> pyval \<Rightarrow> string \<Rightarrow> nat \<Rightarrow> string list \<Rightarrow> pyval list \<times> message list" where
  "within_factors self json_data stimuli_type stimuli_index [] = ([], [])"
| "within_factors self json_data stimuli_type stimuli_index (param # rest) =
     (case within_factors self json_data stimuli_type stimuli_index rest of (vs, ms) \<Rightarrow>
        if param = ''Stimuli_type'' then (vs, ms)
        else (case within_value self json_data stimuli_type stimuli_index param of
                Inl e \<Rightarrow> (vs, WithinNotDefined param # ms)
              | Inr v \<Rightarrow> (v # vs, ms)))"

text \<open>The row built for one value, and the messages printed while building it.\<close>

definition make_row ::
  "Experiment \<Rightarrow> pyval \<Rightarrow> string list \<Rightarrow> string list \<Rightarrow> subject \<Rightarrow> string \<Rightarrow> nat \<Rightarrow> pyval \<Rightarrow>
   pyval list \<times> message list" where
  "make_row self json_data between_factor_list within_factor_list sub stimuli_type stimuli_index value =
     (case between_factors json_data sub between_factor_list of
        (bs, bms) \<Rightarrow>
          (case within_factors self json_data stimuli_type stimuli_index within_factor_list of
             (ws, wms) \<Rightarrow>
               ([value, subj_type sub] @ bs @ [PStr stimuli_type] @ ws @ [name sub], bms @ wms)))"

text \<open>\<open>for value in value_array\<close>, inside the outer \<open>try\<close>: the first exception (of
  \<open>np.isnan\<close> or of the assignment to \<open>data.loc\<close>) leaves the loop for the handler,
  which prints and goes on with the next cell.\<close>

fun add_rows ::
  "env \<Rightarrow> Experiment \<Rightarrow> pyval \<Rightarrow> string list \<Rightarrow> string list \<Rightarrow> subject \<Rightarrow> string \<Rightarrow> nat \<Rightarrow>
   pyval list \<Rightarrow> frame \<Rightarrow> frame \<times> message list" where
  "add_rows env self json_data between_list within_list sub stimuli_type stimuli_index [] data = (data, [])"
| "add_rows env self json_data between_list within_list sub stimuli_type stimuli_index (value # rest) data =
     (case make_row self json_data between_list within_list sub stimuli_type stimuli_index value of
        (row, ms) \<Rightarrow>
          (case isnan env value of
             Inl e \<Rightarrow> (data, ms @ [ErrorInDataInstantiation])
           | Inr null \<Rightarrow>
               (case loc_append data row of
                  Inl e \<Rightarrow>
                    (data, ms @ (if null then [NullValue row] else []) @ [ErrorInDataInstantiation])
                | Inr data' \<Rightarrow>
                    (case add_rows env self json_data between_list within_list sub stimuli_type
                            stimuli_index rest data' of
                       (data'', ms') \<Rightarrow>
                         (data'', ms @ (if null then [NullValue row] else []) @ ms')))))"

text \<open>The \<open>try\<close> statement for one cell of the indicator matrix.\<close>

definition instantiate ::
  "env \<Rightarrow> Experiment \<Rightarrow> pyval \<Rightarrow> string list \<Rightarrow> string list \<Rightarrow> subject \<Rightarrow> string \<Rightarrow> nat \<Rightarrow>
   pyval \<Rightarrow> frame \<Rightarrow> frame \<times> message list" where
  "instantiate env self json_data between_list within_list sub stimuli_type stimuli_index value_array data =
     (case iterate value_array of
        Inl e \<Rightarrow> (data, [ErrorInDataInstantiation])
      | Inr values \<Rightarrow> add_rows env self json_data between_list within_list sub stimuli_type stimuli_index values data)"

text \<open>\<open>self.meta_matrix_dict[1][meta][sub_index, stimuli_index]\<close>, outside the \<open>try\<close>.\<close>

definition cell :: "Experiment \<Rightarrow> string \<Rightarrow> nat \<Rightarrow> nat \<Rightarrow> error + pyval" where
  "cell self meta i j = matrix_item (meta_matrix_dict self) meta i j"

text \<open>\<open>for stimuli_index, stimuli_type in enumerate(sub.aggregate_meta)\<close>\<close>

fun types_rows ::
  "env \<Rightarrow> Experiment \<Rightarrow> pyval \<Rightarrow> string \<Rightarrow> string list \<Rightarrow> string list \<Rightarrow> nat \<Rightarrow> subject \<Rightarrow> nat \<Rightarrow>
   string list \<Rightarrow> frame \<Rightarrow> frame out" where
  "types_rows env self json_data meta between_list within_list sub_index sub stimuli_index [] data = ([], Inr data)"
| "types_rows env self json_data meta between_list within_list sub_index sub stimuli_index (stimuli_type # rest) data =
     (case cell self meta sub_index stimuli_index of
        Inl e \<Rightarrow> ([], Inl e)
      | Inr value_array \<Rightarrow>
          obind
            (case instantiate env self json_data between_list within_list sub stimuli_type stimuli_index value_array data of
               (data', ms) \<Rightarrow> (ms, Inr data'))
            (types_rows env self json_data meta between_list within_list sub_index sub (Suc stimuli_index) rest))"

text \<open>\<open>for sub_index, sub in enumerate(self.subjects)\<close>\<close>

fun subjects_rows ::
  "env \<Rightarrow> Experiment \<Rightarrow> pyval \<Rightarrow> string \<Rightarrow> string list \<Rightarrow> string list \<Rightarrow> nat \<Rightarrow> subject list \<Rightarrow>
   frame \<Rightarrow> frame out" where
  "subjects_rows env self json_data meta between_list within_list sub_index [] data = ([], Inr data)"
| "subjects_rows env self json_data meta between_list within_list sub_index (sub # rest) data =
     obind
       (types_rows env self json_data meta between_list within_list sub_index sub 0 (map fst (aggregate_meta sub)) data)
       (subjects_rows env self json_data meta between_list within_list (Suc sub_index) rest)"

text \<open>The dataframe assembled for one indicator (the column list, the empty frame and the
  two loops over subjects and stimulus types).\<close>

definition indicator_data ::
  "env \<Rightarrow> Experiment \<Rightarrow> pyval \<Rightarrow> string \<Rightarrow> string list \<Rightarrow> string list \<Rightarrow> frame out" where
  "indicator_data env self json_data meta between_factor_list within_factor_list =
     subjects_rows env self json_data meta between_factor_list within_factor_list 0 (subjects self)
       (DataFrame ([meta] @ between_factor_list @ within_factor_list @ [''subject'']))"


text \<open>The statistical test chosen for one indicator; \<open>within_factor_list[0]\<close> raises
  IndexError on an empty list. Any other test name does nothing.\<close>

definition pg :: "env \<Rightarrow> pg_call \<Rightarrow> unit out" where
  "pg env c = (case pingouin env c of Some e \<Rightarrow> ([], Inl e) | None \<Rightarrow> ([PrintTable c], Inr ()))"

definition first_factor :: "string list \<Rightarrow> string out" where
  "first_factor factor_list = ([], seq_item factor_list 0)"

definition run_test :: "env \<Rightarrow> string \<Rightarrow> string \<Rightarrow> string list \<Rightarrow> string list \<Rightarrow> frame \<Rightarrow> unit out" where
  "run_test env statistical_test meta between_factor_list within_factor_list data =
     (if statistical_test = ''Mixed_anova'' then
        obind ([TestName meta ''Mixed anova''], Inr ()) (\<lambda>_.
        obind (first_factor within_factor_list) (\<lambda>w.
        obind (first_factor between_factor_list) (\<lambda>b.
        obind (pg env (mixed_anova meta w b data)) (\<lambda>_.
        obind (first_factor within_factor_list) (\<lambda>w'.
        obind (first_factor between_factor_list) (\<lambda>b'.
          pg env (pairwise_ttests_single meta w' b' data)))))))
      else if statistical_test = ''RM_anova'' then
        obind ([TestName meta ''RM Anova''], Inr ()) (\<lambda>_.
          pg env (rm_anova meta within_factor_list data))
      else if statistical_test = ''ttest'' then
        obind ([TestName meta ''t test''], Inr ()) (\<lambda>_.
          pg env (pairwise_ttests meta within_factor_list between_factor_list data))
      else if statistical_test = ''anova'' then
        obind ([TestName meta ''ANOVA''], Inr ()) (\<lambda>_.
          pg env (anova meta between_factor_list data))
      else ([], Inr ()))"

text \<open>The body of \<open>for meta in Sensor.meta_cols[sen]\<close> for one indicator.\<close>

definition analyse_meta ::
  "env \<Rightarrow> Experiment \<Rightarrow> pyval \<Rightarrow> string list \<Rightarrow> string set \<Rightarrow> string list \<Rightarrow> string list \<Rightarrow>
   string \<Rightarrow> string \<Rightarrow> unit out" where
  "analyse_meta env self json_data meta_not_to_be_considered parameter_list between_factor_list
     within_factor_list statistical_test meta =
     (if meta \<in> set meta_not_to_be_considered then ([], Inr ())
      else if ''all'' \<notin> parameter_list \<and> meta \<notin> parameter_list
        then ([NotInParameterList meta], Inr ())
      else
        obind ([AnalysisFor meta], Inr ()) (\<lambda>_.
        obind (indicator_data env self json_data meta between_factor_list within_factor_list)
          (run_test env statistical_test meta between_factor_list within_factor_list)))"

fun metas_loop :: "(string \<Rightarrow> unit out) \<Rightarrow> string list \<Rightarrow> unit out" where
  "metas_loop body [] = ([], Inr ())"
| "metas_loop body (meta # rest) = obind (body meta) (\<lambda>_. metas_loop body rest)"

text \<open>\<open>for sen in self.sensors: for meta in Sensor.meta_cols[sen]\<close>\<close>

fun sensors_loop :: "env \<Rightarrow> (string \<Rightarrow> unit out) \<Rightarrow> string list \<Rightarrow> unit out" where
  "sensors_loop env body [] = ([], Inr ())"
| "sensors_loop env body (sen # rest) =
     obind ([], dict_get (meta_cols env) sen) (\<lambda>metas.
     obind (metas_loop body metas) (\<lambda>_.
       sensors_loop env body rest))"

definition analyse ::
  "env \<Rightarrow> Experiment \<Rightarrow> string set \<Rightarrow> string list \<Rightarrow> string list \<Rightarrow> string \<Rightarrow> unit out" where
  "analyse env self parameter_list between_factor_list within_factor_list statistical_test =
     obind ([], load env (json_file self)) (\<lambda>json_data.
     obind ([], ebind (subscript json_data (PStr ''Columns_of_interest'')) (\<lambda>of_interest.
                ebind (subscript of_interest (PStr ''EyeTracker'')) (py_in ''GazeAOI''))) (\<lambda>gaze_aoi.
     let meta_not_to_be_considered =
           [''pupil_size'', ''pupil_size_downsample''] @
           (if gaze_aoi then [] else [''no_revisits'', ''first_pass'', ''second_pass''])
     in sensors_loop env
          (analyse_meta env self json_data meta_not_to_be_considered parameter_list
             between_factor_list within_factor_list statistical_test)
          (sensors self)))"

section \<open>getMetaData\<close>

text \<open>\<open>xs.index(x)\<close>: the position of the first element the test accepts, ValueError
  when there is none.\<close>

fun first_index :: "('a \<Rightarrow> bool) \<Rightarrow> 'a list \<Rightarrow> nat option" where
  "first_index P [] = None"
| "first_index P (x # xs) = (if P x then Some 0 else map_option Suc (first_index P xs))"

definition list_index :: "('a \<Rightarrow> bool) \<Rightarrow> 'a list \<Rightarrow> error + nat" where
  "list_index P xs = (case first_index P xs of None \<Rightarrow> Inl ValueError | Some i \<Rightarrow> Inr i)"

text \<open>\<open>s.index(t)\<close> on strings: where \<open>t\<close> first occurs in \<open>s\<close>.\<close>

fun find_str :: "string \<Rightarrow> string \<Rightarrow> nat option" where
  "find_str t [] = (if t = [] then Some 0 else None)"
| "find_str t (c # s) = (if prefix t (c # s) then Some 0 else map_option Suc (find_str t s))"

text \<open>\<open>obj.index(stim)\<close>: lists, tuples and strings have the method; a dictionary, a
  number, a boolean and \<open>None\<close> do not.\<close>

definition index_method :: "pyval \<Rightarrow> string \<Rightarrow> error + int" where
  "index_method obj stim =
     (case obj of
        PList xs \<Rightarrow> ebind (list_index (\<lambda>x. x = PStr stim) xs) (\<lambda>i. Inr (int i))
      | PTuple xs \<Rightarrow> ebind (list_index (\<lambda>x. x = PStr stim) xs) (\<lambda>i. Inr (int i))
      | PStr s \<Rightarrow> (case find_str stim s of None \<Rightarrow> Inl ValueError | Some i \<Rightarrow> Inr (int i))
      | _ \<Rightarrow> Inl AttributeError)"

text \<open>The category search: \<open>stim_cat\<close> and \<open>stim_ind\<close> when the loop ends.\<close>

fun find_category :: "(pyval \<times> pyval) list \<Rightarrow> string \<Rightarrow> error + pyval \<times> int" where
  "find_category [] stim = Inr (PStr [], - 1)"
| "find_category ((cat, listed) # rest) stim =
     ebind (index_method listed stim) (\<lambda>stim_ind.
       if stim_ind \<noteq> - 1 then Inr (cat, stim_ind) else find_category rest stim)"

datatype meta_data =
    Aggregate "(string \<times> (string \<times> pyval) list) list"
  | Features pyval

text \<open>\<open>getMetaData(sub, stim, sensor)\<close>. The argument \<open>sub\<close> enters only through
  \<open>self.subjects.index(sub)\<close>, so it is given by the test \<open>is_sub\<close> that says which
  subject objects compare equal to it.\<close>

definition getMetaData ::
  "Experiment \<Rightarrow> (subject \<Rightarrow> bool) \<Rightarrow> string option \<Rightarrow> string \<Rightarrow> error + meta_data" where
  "getMetaData self is_sub stim sensor =
     (case stim of
        None \<Rightarrow>
          ebind (list_index is_sub (subjects self)) (\<lambda>sub_ind.
            Inr (Aggregate (aggregate_meta (subjects self ! sub_ind))))
      | Some s \<Rightarrow>
          ebind (list_index is_sub (subjects self)) (\<lambda>sub_ind.
          ebind (find_category (stimuli self) s) (\<lambda>(stim_cat, stim_ind).
          ebind (dict_get (stimulus (subjects self ! sub_ind)) stim_cat) (\<lambda>objects.
          ebind (seq_item objects stim_ind) (\<lambda>stimulus_object.
          ebind (dict_get stimulus_object sensor) (\<lambda>metadata.
            Inr (Features metadata)))))))"

section \<open>Calls on an Experiment object\<close>

text \<open>
  The methods a caller can invoke on a constructed object, and the object after the call.
  Only metaMatrixInitialisation assigns to the object: analyse, getMetaData, visualizeData
  and drawAOI read its attributes and assign none.
\<close>

datatype call =
    MetaMatrixInitialisation bool bool
  | Analyse "string set" "string list" "string list" string
  | GetMetaData "subject \<Rightarrow> bool" "string option" string
  | VisualizeData
  | DrawAOI

fun run :: "env \<Rightarrow> Experiment \<Rightarrow> call \<Rightarrow> Experiment" where
  "run env self (MetaMatrixInitialisation standardise_flag average_flag) =
     fst (metaMatrixInitialisation env self standardise_flag average_flag)"
| "run env self (Analyse parameter_list between_factor_list within_factor_list statistical_test) = self"
| "run env self (GetMetaData is_sub stim sensor) = self"
| "run env self VisualizeData = self"
| "run env self DrawAOI = self"


section \<open>Reference descriptions used by the properties\<close>

text \<open>The (subject type, subject name) pairs a \<open>Subjects\<close> entry of the configuration
  lists, type by type in the order of the file.\<close>

definition listed_subjects :: "pyval \<Rightarrow> (pyval \<times> pyval) list" where
  "listed_subjects subject_data =
     (case iterate subject_data of
        Inl e \<Rightarrow> []
      | Inr ks \<Rightarrow>
          concat (map (\<lambda>k. case ebind (subscript subject_data k) iterate of
                              Inl e \<Rightarrow> []
                            | Inr subject_names \<Rightarrow> map (Pair k) subject_names) ks))"

text \<open>The value assigned last to an indicator by the loop over the items of one stimulus type.\<close>

definition last_value :: "(string \<times> pyval) list \<Rightarrow> string \<Rightarrow> pyval option" where
  "last_value metas meta = map_of (rev metas) meta"

text \<open>A configuration entry that names its stimuli by strings: a mapping from stimulus
  names, or a sequence of names.\<close>

definition is_str :: "pyval \<Rightarrow> bool" where
  "is_str v = (case v of PStr s \<Rightarrow> True | _ \<Rightarrow> False)"

definition names_stimuli :: "pyval \<Rightarrow> bool" where
  "names_stimuli listed =
     (case listed of
        PDict kvs \<Rightarrow> True
      | PList xs \<Rightarrow> list_all is_str xs
      | PTuple xs \<Rightarrow> list_all is_str xs
      | _ \<Rightarrow> False)"

text \<open>An indicator whose matrix has a cell for every subject and every stimulus type
  the subject's analysis yielded, so that the read of the cell raises nothing.\<close>

definition readable :: "Experiment \<Rightarrow> string \<Rightarrow> bool" where
  "readable self meta \<longleftrightarrow>
     (\<forall>i<length (subjects self). \<forall>j<length (aggregate_meta (subjects self ! i)).
        \<exists>value_array. cell self meta i j = Inr value_array)"

text \<open>The values of the between-group factors other than Subject_type that the
  configuration defines for a subject, in the order of the factor list; a factor whose
  lookup raises contributes nothing. Likewise for the within-group factors other than
  Stimuli_type.\<close>

definition defined_between :: "pyval \<Rightarrow> subject \<Rightarrow> string list \<Rightarrow> pyval list" where
  "defined_between json_data sub between_list =
     concat (map (\<lambda>param. case between_value json_data sub param of Inl e \<Rightarrow> [] | Inr v \<Rightarrow> [v])
               (filter (\<lambda>param. param \<noteq> ''Subject_type'') between_list))"

definition defined_within :: "Experiment \<Rightarrow> pyval \<Rightarrow> string \<Rightarrow> nat \<Rightarrow> string list \<Rightarrow> pyval list" where
  "defined_within self json_data stimuli_type stimuli_index within_list =
     concat (map (\<lambda>param. case within_value self json_data stimuli_type stimuli_index param of
                             Inl e \<Rightarrow> [] | Inr v \<Rightarrow> [v])
               (filter (\<lambda>param. param \<noteq> ''Stimuli_type'') within_list))"

text \<open>A value of a cell's array can be stored as a row when \<open>np.isnan\<close> accepts it and
  its row has as many entries as the frame has columns.\<close>

definition storable ::
  "env \<Rightarrow> Experiment \<Rightarrow> pyval \<Rightarrow> string list \<Rightarrow> string list \<Rightarrow> subject \<Rightarrow> string \<Rightarrow> nat \<Rightarrow>
   nat \<Rightarrow> pyval \<Rightarrow> bool" where
  "storable env self json_data between_list within_list sub stimuli_type stimuli_index width value =
     ((case isnan env value of Inl e \<Rightarrow> False | Inr null \<Rightarrow> True) \<and>
      length (fst (make_row self json_data between_list within_list sub stimuli_type
                     stimuli_index value)) = width)"

text \<open>The rows one cell of the indicator matrix contributes to a frame of the given
  width: none when the cell cannot be iterated, else the rows of its values up to the
  first value that cannot be stored.\<close>

definition cell_rows ::
  "env \<Rightarrow> Experiment \<Rightarrow> pyval \<Rightarrow> string list \<Rightarrow> string list \<Rightarrow> subject \<Rightarrow> string \<Rightarrow> nat \<Rightarrow>
   nat \<Rightarrow> pyval \<Rightarrow> pyval list list" where
  "cell_rows env self json_data between_list within_list sub stimuli_type stimuli_index width value_array =
     (case iterate value_array of
        Inl e \<Rightarrow> []
      | Inr values \<Rightarrow>
          map (\<lambda>value. fst (make_row self json_data between_list within_list sub stimuli_type
                               stimuli_index value))
            (takeWhile (storable env self json_data between_list within_list sub stimuli_type
                          stimuli_index width) values))"

text \<open>The rows of all cells of one indicator, subject by subject and, for each subject,
  stimulus type by stimulus type.\<close>

definition subject_rows ::
  "env \<Rightarrow> Experiment \<Rightarrow> pyval \<Rightarrow> string \<Rightarrow> string list \<Rightarrow> string list \<Rightarrow> nat \<Rightarrow>
   nat \<times> subject \<Rightarrow> pyval list list" where
  "subject_rows env self json_data meta between_list within_list width indexed =
     (case indexed of (sub_index, sub) \<Rightarrow>
        concat (map (\<lambda>(stimuli_index, stimuli_type).
                       case cell self meta sub_index stimuli_index of
                         Inl e \<Rightarrow> []
                       | Inr value_array \<Rightarrow>
                           cell_rows env self json_data between_list within_list sub stimuli_type
                             stimuli_index width value_array)
                  (enumerate 0 (map fst (aggregate_meta sub)))))"

definition all_rows ::
  "env \<Rightarrow> Experiment \<Rightarrow> pyval \<Rightarrow> string \<Rightarrow> string list \<Rightarrow> string list \<Rightarrow> pyval list list" where
  "all_rows env self json_data meta between_list within_list =
     concat (map (subject_rows env self json_data meta between_list within_list
                    (length between_list + length within_list + 2))
               (enumerate 0 (subjects self)))"

text \<open>What the \<open>try\<close> statement for one cell prints when the frame has the given
  columns, and the messages of all cells of one indicator in the order of the loops.\<close>

definition cell_messages ::
  "env \<Rightarrow> Experiment \<Rightarrow> pyval \<Rightarrow> string list \<Rightarrow> string list \<Rightarrow> subject \<Rightarrow> string \<Rightarrow> nat \<Rightarrow>
   string list \<Rightarrow> pyval \<Rightarrow> message list" where
  "cell_messages env self json_data between_list within_list sub stimuli_type stimuli_index column_list value_array =
     snd (instantiate env self json_data between_list within_list sub stimuli_type stimuli_index
            value_array (DataFrame column_list))"

definition subject_messages ::
  "env \<Rightarrow> Experiment \<Rightarrow> pyval \<Rightarrow> string \<Rightarrow> string list \<Rightarrow> string list \<Rightarrow> string list \<Rightarrow>
   nat \<times> subject \<Rightarrow> message list" where
  "subject_messages env self json_data meta between_list within_list column_list indexed =
     (case indexed of (sub_index, sub) \<Rightarrow>
        concat (map (\<lambda>(stimuli_index, stimuli_type).
                       case cell self meta sub_index stimuli_index of
                         Inl e \<Rightarrow> []
                       | Inr value_array \<Rightarrow>
                           cell_messages env self json_data between_list within_list sub stimuli_type
                             stimuli_index column_list value_array)
                  (enumerate 0 (map fst (aggregate_meta sub)))))"

definition all_messages ::
  "env \<Rightarrow> Experiment \<Rightarrow> pyval \<Rightarrow> string \<Rightarrow> string list \<Rightarrow> string list \<Rightarrow> message list" where
  "all_messages env self json_data meta between_list within_list =
     concat (map (subject_messages env self json_data meta between_list within_list
                    ([meta] @ between_list @ within_list @ [''subject'']))
               (enumerate 0 (subjects self)))"

text \<open>The dataframe and the dependent variable of a statistics call, and the messages
  that are printed tables.\<close>

fun call_frame :: "pg_call \<Rightarrow> frame" where
  "call_frame (mixed_anova dv w b data) = data"
| "call_frame (pairwise_ttests_single dv w b data) = data"
| "call_frame (rm_anova dv w data) = data"
| "call_frame (pairwise_ttests dv w b data) = data"
| "call_frame (anova dv b data) = data"

fun call_dv :: "pg_call \<Rightarrow> string" where
  "call_dv (mixed_anova dv w b data) = dv"
| "call_dv (pairwise_ttests_single dv w b data) = dv"
| "call_dv (rm_anova dv w data) = dv"
| "call_dv (pairwise_ttests dv w b data) = dv"
| "call_dv (anova dv b data) = dv"

fun is_table :: "message \<Rightarrow> bool" where
  "is_table (PrintTable c) = True"
| "is_table m = False"

section \<open>A sample experiment\<close>

text \<open>
  A configuration with two subject types and two stimulus categories. Subject S1 declares
  the between-group factor Gender, subject S2 does not. The stimuli of category Alpha are
  listed with the within-group factor Difficulty, those of category Beta as plain names.
\<close>

definition demo_config :: pyval where
  "demo_config =
     PDict
      [(''Experiment_name'', PStr ''Demo''),
       (''Path'', PStr ''/data''),
       (''Subjects'',
          PDict [(''Group_A'', PDict [(''S1'', PDict [(''Gender'', PStr ''F'')])]),
                 (''Group_B'', PDict [(''S2'', PDict [])])]),
       (''Stimuli'',
          PDict [(''Alpha'', PDict [(''a1'', PDict [(''Difficulty'', PStr ''hard'')])]),
                 (''Beta'', PList [PStr ''b1''])]),
       (''Columns_of_interest'',
          PDict [(''EyeTracker'', PList [PStr ''GazeLeftx'', PStr ''GazeAOI'']),
                 (''Extra'', PList [PStr ''EventSource''])]),
       (''Analysis_Params'',
          PDict [(''EyeTracker'',
                    PDict [(''Display_width'', PInt 1920), (''Display_height'', PInt 1080)])])]"

text \<open>The indicators the subjects' analysis yields: the array of S2 for category Alpha
  holds \<open>None\<close> between two numbers, its entry for category Beta is not an array.\<close>

definition demo_meta :: "subject \<Rightarrow> (string \<times> (string \<times> pyval) list) list" where
  "demo_meta sub =
     (if name sub = PStr ''S1''
      then [(''Alpha'', [(''blink_rate'', PList [PFloat 1, PFloat 2])]),
            (''Beta'', [(''blink_rate'', PList [PFloat 3])])]
      else [(''Alpha'', [(''blink_rate'', PList [PFloat 4, PNone, PFloat 5])]),
            (''Beta'', [(''blink_rate'', PFloat 6)])])"

text \<open>\<open>np.isnan\<close> on single values: numbers are accepted, \<open>None\<close>, strings and
  containers raise TypeError.\<close>

definition isnan_scalar :: "pyval \<Rightarrow> error + bool" where
  "isnan_scalar v =
     (case v of
        PFloat x \<Rightarrow> Inr False
      | PNan \<Rightarrow> Inr True
      | PInt i \<Rightarrow> Inr False
      | PBool b \<Rightarrow> Inr False
      | _ \<Rightarrow> Inl TypeError)"

definition demo_env :: env where
  "demo_env =
     \<lparr>files = (\<lambda>file. if file = ''demo.json'' then Some demo_config else None),
      meta_cols = [(''EyeTracker'', [''blink_rate'', ''pupil_size''])],
      subject_stimulus = (\<lambda>subject_name. []),
      subjectAnalysis = (\<lambda>sub average_flag standardise_flag. Inr (demo_meta sub)),
      isnan = isnan_scalar,
      pingouin = (\<lambda>c. None),
      selection = Inr (10, 20, 300, 400),
      isdir = (\<lambda>d. False),
      makedirs = (\<lambda>d. None)\<rparr>"

definition demo_subject :: "string \<Rightarrow> string \<Rightarrow> database \<Rightarrow> string \<Rightarrow> subject" where
  "demo_subject k subject_name db method =
     \<lparr>sub_path = PStr ''/data'', name = PStr subject_name, subj_type = PStr k,
      sub_stimuli =
        [(PStr ''Alpha'', PDict [(''a1'', PDict [(''Difficulty'', PStr ''hard'')])]),
         (PStr ''Beta'', PList [PStr ''b1''])],
      sub_columns = [PStr ''GazeLeftx'', PStr ''GazeAOI'', PStr ''EventSource''],
      sub_json_file = ''demo.json'', sub_sensors = [''EyeTracker''], database = db,
      reading_method = method,
      sub_aoi_coords = PTuple [PInt 0, PInt 0, PInt 1920, PInt 1080],
      stimulus = [], aggregate_meta = []\<rparr>"

text \<open>The object \<open>Experiment("demo.json", method, ["EyeTracker"], "NA")\<close> constructs.\<close>

definition demo_experiment :: "database \<Rightarrow> string \<Rightarrow> Experiment" where
  "demo_experiment db method =
     \<lparr>path = PStr ''/data'', exp_name = PStr ''Demo'', json_file = ''demo.json'',
      sensors = [''EyeTracker''],
      aoi_coords = PTuple [PInt 0, PInt 0, PInt 1920, PInt 1080],
      columns = [PStr ''GazeLeftx'', PStr ''GazeAOI'', PStr ''EventSource''],
      stimuli =
        [(PStr ''Alpha'', PDict [(''a1'', PDict [(''Difficulty'', PStr ''hard'')])]),
         (PStr ''Beta'', PList [PStr ''b1''])],
      subjects = [demo_subject ''Group_A'' ''S1'' db method, demo_subject ''Group_B'' ''S2'' db method],
      meta_matrix_dict = []\<rparr>"

definition demo_sql :: database where
  "demo_sql = Engine ''sqlite:////data/Data/Demo.db''"

text \<open>The same object after \<open>metaMatrixInitialisation()\<close>.\<close>

definition demo_analysed :: Experiment where
  "demo_analysed =
     (demo_experiment demo_sql ''SQL'')
       \<lparr>subjects :=
          [(demo_subject ''Group_A'' ''S1'' demo_sql ''SQL'')
             \<lparr>aggregate_meta := demo_meta (demo_subject ''Group_A'' ''S1'' demo_sql ''SQL'')\<rparr>,
           (demo_subject ''Group_B'' ''S2'' demo_sql ''SQL'')
             \<lparr>aggregate_meta := demo_meta (demo_subject ''Group_B'' ''S2'' demo_sql ''SQL'')\<rparr>],
        meta_matrix_dict :=
          [(''blink_rate'',
              [[PList [PFloat 1, PFloat 2], PList [PFloat 3]],
               [PList [PFloat 4, PNone, PFloat 5], PFloat 6]]),
           (''pupil_size'', [[PNone, PNone], [PNone, PNone]])]\<rparr>"


text \<open>The dataframe of the indicator blink_rate with the between-group factors
  Subject_type and Gender and the within-group factor Stimuli_type.\<close>

definition demo_frame_gender :: frame where
  "demo_frame_gender =
     \<lparr>df_columns = [''blink_rate'', ''Subject_type'', ''Gender'', ''Stimuli_type'', ''subject''],
      df_rows =
        [[PFloat 1, PStr ''Group_A'', PStr ''F'', PStr ''Alpha'', PStr ''S1''],
         [PFloat 2, PStr ''Group_A'', PStr ''F'', PStr ''Alpha'', PStr ''S1''],
         [PFloat 3, PStr ''Group_A'', PStr ''F'', PStr ''Beta'', PStr ''S1'']]\<rparr>"

text \<open>A 2D array with \<open>n\<close> rows of \<open>m\<close> cells each.\<close>

definition shaped :: "nat \<Rightarrow> nat \<Rightarrow> pyval list list \<Rightarrow> bool" where
  "shaped n m arr \<longleftrightarrow> length arr = n \<and> list_all (\<lambda>row. length row = m) arr"

text \<open>Every array of the indicator matrix has one row per subject and one cell per
  stimulus category.\<close>

definition matrix_ok :: "Experiment \<Rightarrow> bool" where
  "matrix_ok self \<longleftrightarrow>
     (\<forall>(k, arr) \<in> set (meta_matrix_dict self). shaped (length (subjects self)) (length (stimuli self)) arr)"

text \<open>The analysed sample object with both stimulus categories given as lists of names.\<close>

definition demo_listed :: Experiment where
  "demo_listed =
     demo_analysed\<lparr>stimuli := [(PStr ''Alpha'', PList [PStr ''a1'']), (PStr ''Beta'', PList [PStr ''b1''])]\<rparr>"

text \<open>The dataframe of the indicator blink_rate with the default factor lists.\<close>

definition demo_frame_default :: frame where
  "demo_frame_default =
     \<lparr>df_columns = [''blink_rate'', ''Subject_type'', ''Stimuli_type'', ''subject''],
      df_rows =
        [[PFloat 1, PStr ''Group_A'', PStr ''Alpha'', PStr ''S1''],
         [PFloat 2, PStr ''Group_A'', PStr ''Alpha'', PStr ''S1''],
         [PFloat 3, PStr ''Group_A'', PStr ''Beta'', PStr ''S1''],
         [PFloat 4, PStr ''Group_B'', PStr ''Alpha'', PStr ''S2'']]\<rparr>"

section \<open>Basic facts\<close>

lemmas py_defs = ebind_def load_def subscript_def dict_item_def iterate_def str_operand_def
  index_of_key_def seq_item_def dict_get_def

lemmas data_defs = indicator_data_def DataFrame_def cell_def matrix_item_def instantiate_def make_row_def
  between_value_def within_value_def loc_append_def obind_def

lemmas demo_defs = demo_env_def demo_analysed_def demo_experiment_def demo_subject_def
  demo_meta_def demo_config_def isnan_scalar_def demo_sql_def

lemma ebind_eq_Inr: "ebind m f = Inr y \<longleftrightarrow> (\<exists>x. m = Inr x \<and> f x = Inr y)"
  by (cases m) (simp_all add: ebind_def)

lemma ebind_Inr [simp]: "ebind (Inr x) f = f x"
  by (simp add: ebind_def)

lemma ebind_Inl [simp]: "ebind (Inl e) f = Inl e"
  by (simp add: ebind_def)

lemma str_operand_eq_Inr: "str_operand v = Inr s \<longleftrightarrow> v = PStr s"
  by (cases v) (simp_all add: str_operand_def)

lemma obind_Inr: "obind (ms, Inr x) f = (ms @ fst (f x), snd (f x))"
  by (simp add: obind_def split: prod.splits)

lemma obind_Inl: "obind (ms, Inl e) f = (ms, Inl e)"
  by (simp add: obind_def)

lemma obind_eq_Inr:
  "obind m f = (ms, Inr y) \<longleftrightarrow> (\<exists>ms1 x ms2. m = (ms1, Inr x) \<and> f x = (ms2, Inr y) \<and> ms = ms1 @ ms2)"
  by (auto simp: obind_def split: prod.splits sum.splits)

lemma obind_result: "m = (ms1, Inr x) \<Longrightarrow> f x = (ms2, r) \<Longrightarrow> obind m f = (ms1 @ ms2, r)"
  by (simp add: obind_def)

lemma swap_result: "(case p of (d, ms) \<Rightarrow> (ms, Inr d)) = (snd p, Inr (fst p))"
  by (cases p) simp

lemma add_rows_frame:
  "fst (add_rows env self json_data between_list within_list sub stimuli_type stimuli_index values data) =
     data\<lparr>df_rows := df_rows data @
       map (\<lambda>value. fst (make_row self json_data between_list within_list sub stimuli_type stimuli_index value))
         (takeWhile (storable env self json_data between_list within_list sub stimuli_type stimuli_index
            (length (df_columns data))) values)\<rparr>"
proof (induction "values" arbitrary: data)
  case Nil
  show ?case by simp
next
  case (Cons v vs)
  obtain row ms where mr: "make_row self json_data between_list within_list sub stimuli_type stimuli_index v = (row, ms)"
    by (cases "make_row self json_data between_list within_list sub stimuli_type stimuli_index v")
  let ?ok = "storable env self json_data between_list within_list sub stimuli_type stimuli_index
     (length (df_columns data))"
  show ?case
  proof (cases "?ok v")
    case False
    then have "fst (add_rows env self json_data between_list within_list sub stimuli_type stimuli_index
        (v # vs) data) = data"
      by (cases "isnan env v") (auto simp: mr storable_def loc_append_def)
    then show ?thesis using False by simp
  next
    case True
    then obtain null where nan: "isnan env v = Inr null" and len: "length row = length (df_columns data)"
      by (cases "isnan env v") (auto simp: mr storable_def)
    obtain d' ms' where rec:
      "add_rows env self json_data between_list within_list sub stimuli_type stimuli_index vs
         (data\<lparr>df_rows := df_rows data @ [row]\<rparr>) = (d', ms')"
      by (cases "add_rows env self json_data between_list within_list sub stimuli_type stimuli_index vs
         (data\<lparr>df_rows := df_rows data @ [row]\<rparr>)")
    from Cons.IH [of "data\<lparr>df_rows := df_rows data @ [row]\<rparr>"] rec
    have "d' = data\<lparr>df_rows := df_rows data @ row #
        map (\<lambda>value. fst (make_row self json_data between_list within_list sub stimuli_type stimuli_index value))
          (takeWhile ?ok vs)\<rparr>"
      by simp
    moreover have "fst (add_rows env self json_data between_list within_list sub stimuli_type stimuli_index
        (v # vs) data) = d'"
      using nan len rec by (simp add: mr loc_append_def)
    ultimately show ?thesis using True by (simp add: mr)
  qed
qed

lemma instantiate_frame:
  "fst (instantiate env self json_data between_list within_list sub stimuli_type stimuli_index value_array data) =
     data\<lparr>df_rows := df_rows data @
       cell_rows env self json_data between_list within_list sub stimuli_type stimuli_index
         (length (df_columns data)) value_array\<rparr>"
  by (cases "iterate value_array") (simp_all add: instantiate_def cell_rows_def add_rows_frame)


lemma types_rows_frame:
  "types_rows env self json_data meta between_list within_list sub_index sub j types data = (ms, Inr d') \<Longrightarrow>
   d' = data\<lparr>df_rows := df_rows data @
     concat (map (\<lambda>(stimuli_index, stimuli_type).
                    case cell self meta sub_index stimuli_index of
                      Inl e \<Rightarrow> []
                    | Inr value_array \<Rightarrow>
                        cell_rows env self json_data between_list within_list sub stimuli_type
                          stimuli_index (length (df_columns data)) value_array)
               (enumerate j types))\<rparr>"
proof (induction types arbitrary: j data ms)
  case Nil
  then show ?case by simp
next
  case (Cons t ts)
  show ?case
  proof (cases "cell self meta sub_index j")
    case (Inl e)
    with Cons.prems show ?thesis by simp
  next
    case (Inr va)
    let ?d1 = "fst (instantiate env self json_data between_list within_list sub t j va data)"
    let ?rest = "types_rows env self json_data meta between_list within_list sub_index sub (Suc j) ts ?d1"
    from Cons.prems Inr obtain ms2 where rest: "?rest = (ms2, Inr d')"
      by (auto simp: swap_result obind_eq_Inr)
    have d1: "?d1 = data\<lparr>df_rows := df_rows data @
        cell_rows env self json_data between_list within_list sub t j (length (df_columns data)) va\<rparr>"
      by (rule instantiate_frame)
    have cols: "length (df_columns ?d1) = length (df_columns data)"
      by (subst d1) simp
    have rows: "df_rows ?d1 = df_rows data @
        cell_rows env self json_data between_list within_list sub t j (length (df_columns data)) va"
      by (subst d1) simp
    have upd: "?d1\<lparr>df_rows := rs\<rparr> = data\<lparr>df_rows := rs\<rparr>" for rs
      by (subst d1) simp
    from Cons.IH [OF rest] show ?thesis
      unfolding cols rows upd by (simp add: Inr)
  qed
qed

lemma types_rows_total:
  "(\<forall>k<length types. \<exists>va. cell self meta sub_index (j + k) = Inr va) \<Longrightarrow>
   \<exists>ms d'. types_rows env self json_data meta between_list within_list sub_index sub j types data = (ms, Inr d')"
proof (induction types arbitrary: j data)
  case Nil
  then show ?case by simp
next
  case (Cons t ts)
  from Cons.prems [rule_format, of 0] obtain va where va: "cell self meta sub_index j = Inr va"
    by auto
  have "\<forall>k<length ts. \<exists>va. cell self meta sub_index (Suc j + k) = Inr va"
    using Cons.prems [rule_format, of "Suc k" for k] by simp
  from Cons.IH [OF this] obtain ms2 d2 where
    "types_rows env self json_data meta between_list within_list sub_index sub (Suc j) ts
       (fst (instantiate env self json_data between_list within_list sub t j va data)) = (ms2, Inr d2)"
    by blast
  then show ?case
    by (simp add: va swap_result obind_Inr)
qed

lemma subjects_rows_frame:
  "subjects_rows env self json_data meta between_list within_list i subs data = (ms, Inr d') \<Longrightarrow>
   d' = data\<lparr>df_rows := df_rows data @
     concat (map (subject_rows env self json_data meta between_list within_list (length (df_columns data)))
               (enumerate i subs))\<rparr>"
proof (induction subs arbitrary: i data ms)
  case Nil
  then show ?case by simp
next
  case (Cons sub rest)
  let ?first = "types_rows env self json_data meta between_list within_list i sub 0
                  (map fst (aggregate_meta sub)) data"
  show ?case
  proof (cases "snd ?first")
    case (Inl e)
    with Cons.prems show ?thesis
      by (auto simp: obind_def split: prod.splits sum.splits)
  next
    case (Inr d1)
    then have first: "?first = (fst ?first, Inr d1)" by (metis prod.collapse)
    let ?rest = "subjects_rows env self json_data meta between_list within_list (Suc i) rest d1"
    from Cons.prems first obtain ms2 where rest: "?rest = (ms2, Inr d')"
      by (auto simp: obind_eq_Inr)
    note d1 = types_rows_frame [OF first]
    have cols: "length (df_columns d1) = length (df_columns data)" by (subst d1) simp
    have rows: "df_rows d1 = df_rows data @
        subject_rows env self json_data meta between_list within_list (length (df_columns data)) (i, sub)"
      by (subst d1) (simp add: subject_rows_def)
    have upd: "d1\<lparr>df_rows := rs\<rparr> = data\<lparr>df_rows := rs\<rparr>" for rs
      by (subst d1) simp
    from Cons.IH [OF rest] show ?thesis
      unfolding cols rows upd by simp
  qed
qed

lemma subjects_rows_total:
  "(\<forall>k<length subs. \<forall>j<length (aggregate_meta (subs ! k)). \<exists>va. cell self meta (i + k) j = Inr va) \<Longrightarrow>
   \<exists>ms d'. subjects_rows env self json_data meta between_list within_list i subs data = (ms, Inr d')"
proof (induction subs arbitrary: i data)
  case Nil
  then show ?case by simp
next
  case (Cons sub rest)
  have "\<forall>j<length (map fst (aggregate_meta sub)). \<exists>va. cell self meta i (0 + j) = Inr va"
    using Cons.prems [rule_format, of 0] by simp
  from types_rows_total [OF this] obtain ms1 d1 where first:
    "types_rows env self json_data meta between_list within_list i sub 0 (map fst (aggregate_meta sub)) data
       = (ms1, Inr d1)"
    by blast
  have "\<forall>k<length rest. \<forall>j<length (aggregate_meta (rest ! k)). \<exists>va. cell self meta (Suc i + k) j = Inr va"
    using Cons.prems [rule_format, of "Suc k" for k] by simp
  from Cons.IH [OF this, of d1] show ?case
    by (auto simp: first obind_Inr)
qed

lemma demo_data_gender:
  "indicator_data demo_env demo_analysed demo_config ''blink_rate''
     [''Subject_type'', ''Gender''] [''Stimuli_type''] =
     ([BetweenNotDefined ''Gender'', ErrorInDataInstantiation, ErrorInDataInstantiation],
      Inr demo_frame_gender)"
  by (simp add: data_defs py_defs demo_defs demo_frame_gender_def)

section \<open>Errors while a dataframe is assembled\<close>

lemma add_rows_messages:
  "length (df_columns d1) = length (df_columns d2) \<Longrightarrow>
   snd (add_rows env self json_data between_list within_list sub stimuli_type stimuli_index values d1) =
   snd (add_rows env self json_data between_list within_list sub stimuli_type stimuli_index values d2)"
proof (induction "values" arbitrary: d1 d2)
  case Nil
  show ?case by simp
next
  case (Cons v vs)
  obtain row ms where mr: "make_row self json_data between_list within_list sub stimuli_type stimuli_index v = (row, ms)"
    by (cases "make_row self json_data between_list within_list sub stimuli_type stimuli_index v")
  show ?case
  proof (cases "isnan env v")
    case (Inl e)
    then show ?thesis by (simp add: mr)
  next
    case (Inr null)
    show ?thesis
    proof (cases "length row = length (df_columns d1)")
      case False
      with Cons.prems Inr show ?thesis by (simp add: mr loc_append_def)
    next
      case True
      have "snd (add_rows env self json_data between_list within_list sub stimuli_type stimuli_index vs
                  (d1\<lparr>df_rows := df_rows d1 @ [row]\<rparr>)) =
            snd (add_rows env self json_data between_list within_list sub stimuli_type stimuli_index vs
                  (d2\<lparr>df_rows := df_rows d2 @ [row]\<rparr>))"
        by (rule Cons.IH) (simp add: Cons.prems)
      with True Cons.prems Inr show ?thesis
        by (auto simp: mr loc_append_def split: prod.splits)
    qed
  qed
qed

lemma instantiate_messages:
  "snd (instantiate env self json_data between_list within_list sub stimuli_type stimuli_index value_array data) =
   cell_messages env self json_data between_list within_list sub stimuli_type stimuli_index
     (df_columns data) value_array"
proof (cases "iterate value_array")
  case (Inl e)
  then show ?thesis by (simp add: instantiate_def cell_messages_def)
next
  case (Inr vs)
  have "snd (add_rows env self json_data between_list within_list sub stimuli_type stimuli_index vs data) =
        snd (add_rows env self json_data between_list within_list sub stimuli_type stimuli_index vs
               (DataFrame (df_columns data)))"
    by (rule add_rows_messages) (simp add: DataFrame_def)
  then show ?thesis by (simp add: instantiate_def cell_messages_def Inr)
qed

lemma types_rows_messages:
  "types_rows env self json_data meta between_list within_list sub_index sub j types data = (ms, Inr d') \<Longrightarrow>
   ms = concat (map (\<lambda>(stimuli_index, stimuli_type).
                    case cell self meta sub_index stimuli_index of
                      Inl e \<Rightarrow> []
                    | Inr value_array \<Rightarrow>
                        cell_messages env self json_data between_list within_list sub stimuli_type
                          stimuli_index (df_columns data) value_array)
               (enumerate j types))"
proof (induction types arbitrary: j data ms)
  case Nil
  then show ?case by simp
next
  case (Cons t ts)
  show ?case
  proof (cases "cell self meta sub_index j")
    case (Inl e)
    with Cons.prems show ?thesis by simp
  next
    case (Inr va)
    let ?d1 = "fst (instantiate env self json_data between_list within_list sub t j va data)"
    let ?m1 = "snd (instantiate env self json_data between_list within_list sub t j va data)"
    let ?rest = "types_rows env self json_data meta between_list within_list sub_index sub (Suc j) ts ?d1"
    from Cons.prems Inr obtain ms2 where rest: "?rest = (ms2, Inr d')" and ms: "ms = ?m1 @ ms2"
      by (auto simp: swap_result obind_eq_Inr)
    have cols: "df_columns ?d1 = df_columns data"
      by (subst instantiate_frame) simp
    from Cons.IH [OF rest] show ?thesis
      unfolding cols ms by (simp add: Inr instantiate_messages)
  qed
qed

lemma subjects_rows_messages:
  "subjects_rows env self json_data meta between_list within_list i subs data = (ms, Inr d') \<Longrightarrow>
   ms = concat (map (subject_messages env self json_data meta between_list within_list (df_columns data))
               (enumerate i subs))"
proof (induction subs arbitrary: i data ms)
  case Nil
  then show ?case by simp
next
  case (Cons sub rest)
  let ?first = "types_rows env self json_data meta between_list within_list i sub 0
                  (map fst (aggregate_meta sub)) data"
  from Cons.prems obtain ms1 d1 ms2 where first: "?first = (ms1, Inr d1)"
    and rest: "subjects_rows env self json_data meta between_list within_list (Suc i) rest d1 = (ms2, Inr d')"
    and ms: "ms = ms1 @ ms2"
    by (auto simp: obind_eq_Inr)
  have cols: "df_columns d1 = df_columns data"
    by (subst types_rows_frame [OF first]) simp
  from Cons.IH [OF rest] types_rows_messages [OF first] show ?case
    unfolding cols ms by (simp add: subject_messages_def)
qed

lemma indicator_data_result:
  assumes "\<forall>i<length (subjects self). \<forall>j<length (aggregate_meta (subjects self ! i)).
             \<exists>value_array. cell self meta i j = Inr value_array"
  shows "indicator_data env self json_data meta between_list within_list =
           (all_messages env self json_data meta between_list within_list,
            Inr \<lparr>df_columns = [meta] @ between_list @ within_list @ [''subject''],
                 df_rows = all_rows env self json_data meta between_list within_list\<rparr>)"
proof -
  let ?data = "DataFrame ([meta] @ between_list @ within_list @ [''subject''])"
  have "\<forall>k<length (subjects self). \<forall>j<length (aggregate_meta (subjects self ! k)).
          \<exists>va. cell self meta (0 + k) j = Inr va"
    using assms by simp
  from subjects_rows_total [OF this] obtain ms d' where
    r: "subjects_rows env self json_data meta between_list within_list 0 (subjects self) ?data = (ms, Inr d')"
    by blast
  have w: "length (df_columns ?data) = length between_list + length within_list + 2"
    by (simp add: DataFrame_def)
  from subjects_rows_frame [OF r] have "d' = \<lparr>df_columns = [meta] @ between_list @ within_list @ [''subject''],
      df_rows = all_rows env self json_data meta between_list within_list\<rparr>"
    unfolding w by (simp add: all_rows_def DataFrame_def)
  moreover from subjects_rows_messages [OF r] have "ms = all_messages env self json_data meta between_list within_list"
    by (simp add: all_messages_def DataFrame_def)
  ultimately show ?thesis using r by (simp add: indicator_data_def)
qed


lemma add_rows_error_logged:
  "\<not> list_all (storable env self json_data between_list within_list sub stimuli_type stimuli_index
       (length (df_columns data))) values \<Longrightarrow>
   ErrorInDataInstantiation \<in> set (snd (add_rows env self json_data between_list within_list sub
       stimuli_type stimuli_index values data))"
proof (induction "values" arbitrary: data)
  case Nil
  then show ?case by simp
next
  case (Cons v vs)
  obtain row ms where mr: "make_row self json_data between_list within_list sub stimuli_type stimuli_index v = (row, ms)"
    by (cases "make_row self json_data between_list within_list sub stimuli_type stimuli_index v")
  show ?case
  proof (cases "isnan env v")
    case (Inl e)
    then show ?thesis by (simp add: mr)
  next
    case (Inr null)
    show ?thesis
    proof (cases "length row = length (df_columns data)")
      case False
      with Inr show ?thesis by (simp add: mr loc_append_def)
    next
      case True
      with Inr have "storable env self json_data between_list within_list sub stimuli_type stimuli_index
          (length (df_columns data)) v"
        by (simp add: storable_def mr)
      with Cons.prems have "\<not> list_all (storable env self json_data between_list within_list sub
          stimuli_type stimuli_index (length (df_columns (data\<lparr>df_rows := df_rows data @ [row]\<rparr>)))) vs"
        by simp
      from Cons.IH [OF this] True Inr show ?thesis
        by (auto simp: mr loc_append_def split: prod.splits)
    qed
  qed
qed

lemma add_rows_first_logged:
  "set (snd (make_row self json_data between_list within_list sub stimuli_type stimuli_index v)) \<subseteq>
   set (snd (add_rows env self json_data between_list within_list sub stimuli_type stimuli_index (v # vs) data))"
  by (auto split: prod.splits sum.splits)

lemma between_factors_logged:
  "param \<in> set between_list \<Longrightarrow> param \<noteq> ''Subject_type'' \<Longrightarrow> between_value json_data sub param = Inl e \<Longrightarrow>
   BetweenNotDefined param \<in> set (snd (between_factors json_data sub between_list))"
  by (induction between_list) (auto split: prod.splits sum.splits)

lemma within_factors_logged:
  "param \<in> set within_list \<Longrightarrow> param \<noteq> ''Stimuli_type'' \<Longrightarrow>
   within_value self json_data stimuli_type stimuli_index param = Inl e \<Longrightarrow>
   WithinNotDefined param \<in> set (snd (within_factors self json_data stimuli_type stimuli_index within_list))"
  by (induction within_list) (auto split: prod.splits sum.splits)

lemma make_row_messages:
  "snd (make_row self json_data between_list within_list sub stimuli_type stimuli_index v) =
     snd (between_factors json_data sub between_list) @
     snd (within_factors self json_data stimuli_type stimuli_index within_list)"
  by (simp add: make_row_def split: prod.splits)

lemma cell_not_iterable:
  "iterate value_array = Inl e \<Longrightarrow>
   cell_rows env self json_data between_list within_list sub stimuli_type stimuli_index width value_array = [] \<and>
   cell_messages env self json_data between_list within_list sub stimuli_type stimuli_index column_list
     value_array = [ErrorInDataInstantiation]"
  by (simp add: cell_rows_def cell_messages_def instantiate_def)

lemma cell_error_logged:
  "iterate value_array = Inr values \<Longrightarrow>
   \<not> list_all (storable env self json_data between_list within_list sub stimuli_type stimuli_index
        (length column_list)) values \<Longrightarrow>
   ErrorInDataInstantiation \<in> set (cell_messages env self json_data between_list within_list sub
       stimuli_type stimuli_index column_list value_array)"
  using add_rows_error_logged [of env self json_data between_list within_list sub stimuli_type
      stimuli_index "DataFrame column_list" "values"]
  by (simp add: cell_messages_def instantiate_def DataFrame_def)

lemma cell_between_logged:
  assumes "iterate value_array = Inr (v # vs)" and "param \<in> set between_list"
    and "param \<noteq> ''Subject_type''" and "between_value json_data sub param = Inl e"
  shows "BetweenNotDefined param \<in> set (cell_messages env self json_data between_list within_list sub
       stimuli_type stimuli_index column_list value_array)"
proof -
  from between_factors_logged [OF assms(2-4)]
  have "BetweenNotDefined param \<in>
      set (snd (make_row self json_data between_list within_list sub stimuli_type stimuli_index v))"
    by (simp add: make_row_messages)
  with add_rows_first_logged [of self json_data between_list within_list sub stimuli_type stimuli_index v
      env vs "DataFrame column_list"]
  show ?thesis
    unfolding cell_messages_def instantiate_def by (auto simp: assms(1))
qed

lemma cell_within_logged:
  assumes "iterate value_array = Inr (v # vs)" and "param \<in> set within_list"
    and "param \<noteq> ''Stimuli_type''"
    and "within_value self json_data stimuli_type stimuli_index param = Inl e"
  shows "WithinNotDefined param \<in> set (cell_messages env self json_data between_list within_list sub
       stimuli_type stimuli_index column_list value_array)"
proof -
  from within_factors_logged [OF assms(2-4)]
  have "WithinNotDefined param \<in>
      set (snd (make_row self json_data between_list within_list sub stimuli_type stimuli_index v))"
    by (simp add: make_row_messages)
  with add_rows_first_logged [of self json_data between_list within_list sub stimuli_type stimuli_index v
      env vs "DataFrame column_list"]
  show ?thesis
    unfolding cell_messages_def instantiate_def by (auto simp: assms(1))
qed

lemma demo_readable:
  "\<forall>i<length (subjects demo_analysed). \<forall>j<length (aggregate_meta (subjects demo_analysed ! i)).
     \<exists>value_array. cell demo_analysed ''blink_rate'' i j = Inr value_array"
  by (simp add: demo_defs cell_def matrix_item_def py_defs less_Suc_eq numeral_2_eq_2 all_conj_distrib)

lemma demo_data_default:
  "indicator_data demo_env demo_analysed demo_config ''blink_rate'' [''Subject_type''] [''Stimuli_type''] =
     ([ErrorInDataInstantiation, ErrorInDataInstantiation], Inr demo_frame_default)"
  by (simp add: data_defs py_defs demo_defs demo_frame_default_def)

lemma between_factors_values:
  "fst (between_factors json_data sub between_list) = defined_between json_data sub between_list"
  by (induction between_list) (auto simp: defined_between_def split: prod.splits sum.splits)

lemma within_factors_values:
  "fst (within_factors self json_data stimuli_type stimuli_index within_list) =
   defined_within self json_data stimuli_type stimuli_index within_list"
  by (induction within_list) (auto simp: defined_within_def split: prod.splits sum.splits)

lemma make_row_values:
  "fst (make_row self json_data between_list within_list sub stimuli_type stimuli_index v) =
     [v, subj_type sub] @ defined_between json_data sub between_list @ [PStr stimuli_type] @
     defined_within self json_data stimuli_type stimuli_index within_list @ [name sub]"
  using between_factors_values [of json_data sub between_list, symmetric]
    within_factors_values [of self json_data stimuli_type stimuli_index within_list, symmetric]
  by (auto simp: make_row_def split: prod.splits)

lemma obind_snd: "snd (obind m f) = (case snd m of Inl e \<Rightarrow> Inl e | Inr x \<Rightarrow> snd (f x))"
  by (auto simp: obind_def split: prod.splits sum.splits)

lemma pg_returns: "pingouin env c = None \<Longrightarrow> snd (pg env c) = Inr ()"
  by (simp add: pg_def)

lemma first_factor_returns: "factor_list \<noteq> [] \<Longrightarrow> snd (first_factor factor_list) = Inr (hd factor_list)"
  by (cases factor_list) (simp_all add: first_factor_def seq_item_def)

lemma run_test_returns:
  assumes "\<forall>c. pingouin env c = None"
    and "statistical_test = ''Mixed_anova'' \<longrightarrow> between_list \<noteq> [] \<and> within_list \<noteq> []"
  shows "snd (run_test env statistical_test meta between_list within_list data) = Inr ()"
  using assms by (simp add: run_test_def obind_snd pg_returns first_factor_returns)

lemma analyse_meta_returns:
  assumes "readable self meta" and "\<forall>c. pingouin env c = None"
    and "statistical_test = ''Mixed_anova'' \<longrightarrow> between_list \<noteq> [] \<and> within_list \<noteq> []"
  shows "snd (analyse_meta env self json_data skipped parameter_list between_list within_list
            statistical_test meta) = Inr ()"
  using indicator_data_result [OF assms(1) [unfolded readable_def], of env json_data between_list within_list]
    run_test_returns [OF assms(2,3)]
  by (simp add: analyse_meta_def obind_snd)

lemma metas_loop_returns:
  "\<forall>meta \<in> set metas. snd (body meta) = Inr () \<Longrightarrow> snd (metas_loop body metas) = Inr ()"
  by (induction metas) (simp_all add: obind_snd)

lemma sensors_loop_returns:
  "\<forall>sen \<in> set sens. \<exists>metas. dict_get (meta_cols env) sen = Inr metas \<and>
      (\<forall>meta \<in> set metas. snd (body meta) = Inr ()) \<Longrightarrow>
   snd (sensors_loop env body sens) = Inr ()"
proof (induction sens)
  case Nil
  show ?case by simp
next
  case (Cons sen rest)
  from Cons.prems obtain metas where m: "dict_get (meta_cols env) sen = Inr metas"
    and b: "\<forall>meta \<in> set metas. snd (body meta) = Inr ()"
    by auto
  from Cons.prems have "snd (sensors_loop env body rest) = Inr ()"
    by (intro Cons.IH) simp
  with metas_loop_returns [OF b] m show ?case
    by (simp add: obind_snd)
qed

lemma analyse_returns:
  assumes "files env (json_file self) = Some json_data"
    and "ebind (subscript json_data (PStr ''Columns_of_interest'')) (\<lambda>of_interest.
           ebind (subscript of_interest (PStr ''EyeTracker'')) (py_in ''GazeAOI'')) = Inr gaze_aoi"
    and "\<forall>sen \<in> set (sensors self). \<exists>metas. dict_get (meta_cols env) sen = Inr metas \<and>
           (\<forall>meta \<in> set metas. readable self meta)"
    and "\<forall>c. pingouin env c = None"
    and "statistical_test = ''Mixed_anova'' \<longrightarrow> between_list \<noteq> [] \<and> within_list \<noteq> []"
  shows "snd (analyse env self parameter_list between_list within_list statistical_test) = Inr ()"
proof -
  have "snd (sensors_loop env
          (analyse_meta env self json_data skipped parameter_list between_list within_list statistical_test)
          (sensors self)) = Inr ()" for skipped
    by (rule sensors_loop_returns) (insert assms(3), auto simp: analyse_meta_returns [OF _ assms(4,5)])
  with assms(1,2) show ?thesis
    by (simp add: analyse_def load_def obind_snd Let_def)
qed


lemma obind_raises:
  "snd (obind m f) = Inl e \<Longrightarrow> snd m = Inl e \<or> (\<exists>x. snd m = Inr x \<and> snd (f x) = Inl e)"
  by (auto simp: obind_def split: prod.splits sum.splits)

lemma pg_raises: "snd (pg env c) = Inl e \<Longrightarrow> pingouin env c = Some e"
  by (cases "pingouin env c") (simp_all add: pg_def)

lemma first_factor_raises: "snd (first_factor factor_list) = Inl e \<Longrightarrow> e = IndexError \<and> factor_list = []"
  by (cases factor_list) (simp_all add: first_factor_def seq_item_def)

lemma run_test_raises:
  assumes "snd (run_test env statistical_test meta between_list within_list data) = Inl e"
  shows "(\<exists>c. pingouin env c = Some e \<and> call_frame c = data \<and> call_dv c = meta) \<or>
         (e = IndexError \<and> statistical_test = ''Mixed_anova'' \<and> (between_list = [] \<or> within_list = []))"
proof (cases "statistical_test = ''Mixed_anova''")
  case True
  with assms show ?thesis
    unfolding run_test_def
    by (auto dest!: obind_raises pg_raises first_factor_raises)
next
  case False
  with assms show ?thesis
    unfolding run_test_def
    by (auto dest!: obind_raises pg_raises split: if_splits)
qed

lemma analyse_meta_raises:
  assumes "readable self meta"
    and "snd (analyse_meta env self json_data skipped parameter_list between_list within_list
            statistical_test meta) = Inl e"
  shows "(\<exists>c. pingouin env c = Some e \<and> call_dv c = meta \<and>
            call_frame c = \<lparr>df_columns = [meta] @ between_list @ within_list @ [''subject''],
                            df_rows = all_rows env self json_data meta between_list within_list\<rparr>) \<or>
         (e = IndexError \<and> statistical_test = ''Mixed_anova'' \<and> (between_list = [] \<or> within_list = []))"
proof -
  note data = indicator_data_result [OF assms(1) [unfolded readable_def], of env json_data between_list within_list]
  from assms(2) have "snd (run_test env statistical_test meta between_list within_list
      \<lparr>df_columns = [meta] @ between_list @ within_list @ [''subject''],
       df_rows = all_rows env self json_data meta between_list within_list\<rparr>) = Inl e"
    unfolding analyse_meta_def data
    by (auto simp: obind_snd split: if_splits)
  from run_test_raises [OF this] show ?thesis by blast
qed

lemma metas_loop_raises:
  "snd (metas_loop body metas) = Inl e \<Longrightarrow> \<exists>meta \<in> set metas. snd (body meta) = Inl e"
  by (induction metas) (auto dest!: obind_raises)

lemma sensors_loop_raises:
  "\<forall>sen \<in> set sens. \<exists>metas. dict_get (meta_cols env) sen = Inr metas \<Longrightarrow>
   snd (sensors_loop env body sens) = Inl e \<Longrightarrow>
   \<exists>sen \<in> set sens. \<exists>metas. dict_get (meta_cols env) sen = Inr metas \<and> (\<exists>meta \<in> set metas. snd (body meta) = Inl e)"
proof (induction sens)
  case Nil
  then show ?case by simp
next
  case (Cons sen rest)
  from Cons.prems(1) obtain metas where m: "dict_get (meta_cols env) sen = Inr metas"
    by auto
  from Cons.prems(2) have "snd (metas_loop body metas) = Inl e \<or> snd (sensors_loop env body rest) = Inl e"
    by (auto simp: m dest!: obind_raises)
  then show ?case
  proof
    assume "snd (metas_loop body metas) = Inl e"
    from metas_loop_raises [OF this] m show ?thesis by auto
  next
    assume "snd (sensors_loop env body rest) = Inl e"
    with Cons.IH Cons.prems(1) show ?thesis by auto
  qed
qed

lemma analyse_raises:
  assumes "files env (json_file self) = Some json_data"
    and "ebind (subscript json_data (PStr ''Columns_of_interest'')) (\<lambda>of_interest.
           ebind (subscript of_interest (PStr ''EyeTracker'')) (py_in ''GazeAOI'')) = Inr gaze_aoi"
    and "\<forall>sen \<in> set (sensors self). \<exists>metas. dict_get (meta_cols env) sen = Inr metas \<and>
           (\<forall>meta \<in> set metas. readable self meta)"
    and "snd (analyse env self parameter_list between_list within_list statistical_test) = Inl e"
  shows "(\<exists>c. pingouin env c = Some e \<and>
            call_frame c = \<lparr>df_columns = [call_dv c] @ between_list @ within_list @ [''subject''],
                            df_rows = all_rows env self json_data (call_dv c) between_list within_list\<rparr>) \<or>
         (e = IndexError \<and> statistical_test = ''Mixed_anova'' \<and> (between_list = [] \<or> within_list = []))"
proof -
  from assms(1,2,4) obtain skipped where
    "snd (sensors_loop env
          (analyse_meta env self json_data skipped parameter_list between_list within_list statistical_test)
          (sensors self)) = Inl e"
    by (auto simp: analyse_def load_def obind_snd Let_def)
  moreover from assms(3) have "\<forall>sen \<in> set (sensors self). \<exists>metas. dict_get (meta_cols env) sen = Inr metas"
    by blast
  ultimately obtain sen metas meta where "sen \<in> set (sensors self)" "dict_get (meta_cols env) sen = Inr metas"
    "meta \<in> set metas"
    "snd (analyse_meta env self json_data skipped parameter_list between_list within_list statistical_test meta) = Inl e"
    by (blast dest: sensors_loop_raises)
  moreover with assms(3) have "readable self meta" by auto
  ultimately show ?thesis
    using analyse_meta_raises [of self meta env json_data skipped parameter_list between_list within_list
        statistical_test e]
    by auto
qed

lemma storable_width:
  "storable env self json_data between_list within_list sub stimuli_type stimuli_index width v \<longleftrightarrow>
     (\<exists>null. isnan env v = Inr null) \<and>
     length (defined_between json_data sub between_list) +
     length (defined_within self json_data stimuli_type stimuli_index within_list) + 4 = width"
  by (cases "isnan env v") (auto simp: storable_def make_row_values)

lemma demo_sensors_readable:
  "\<forall>sen \<in> set (sensors demo_analysed). \<exists>metas. dict_get (meta_cols demo_env) sen = Inr metas \<and>
     (\<forall>meta \<in> set metas. readable demo_analysed meta)"
  by (simp add: readable_def demo_defs cell_def matrix_item_def py_defs less_Suc_eq numeral_2_eq_2 all_conj_distrib)

lemma demo_blink_readable: "readable demo_analysed ''blink_rate''"
  unfolding readable_def by (rule demo_readable)

lemma demo_data_gender_only:
  "indicator_data demo_env demo_analysed demo_config ''blink_rate'' [''Gender''] [''Stimuli_type''] =
     ([ErrorInDataInstantiation, ErrorInDataInstantiation,
       BetweenNotDefined ''Gender'', BetweenNotDefined ''Gender'',
       ErrorInDataInstantiation, ErrorInDataInstantiation],
      Inr \<lparr>df_columns = [''blink_rate'', ''Gender'', ''Stimuli_type'', ''subject''],
           df_rows = [[PFloat 4, PStr ''Group_B'', PStr ''Alpha'', PStr ''S2'']]\<rparr>)"
  by (simp add: data_defs py_defs demo_defs)

lemma demo_analyse_gender:
  "fst (analyse demo_env demo_analysed {''all''} [''Gender''] [''Stimuli_type''] ''Mixed_anova'') =
     [AnalysisFor ''blink_rate'', ErrorInDataInstantiation, ErrorInDataInstantiation,
      BetweenNotDefined ''Gender'', BetweenNotDefined ''Gender'',
      ErrorInDataInstantiation, ErrorInDataInstantiation,
      TestName ''blink_rate'' ''Mixed anova'',
      PrintTable (mixed_anova ''blink_rate'' ''Stimuli_type'' ''Gender''
        \<lparr>df_columns = [''blink_rate'', ''Gender'', ''Stimuli_type'', ''subject''],
         df_rows = [[PFloat 4, PStr ''Group_B'', PStr ''Alpha'', PStr ''S2'']]\<rparr>),
      PrintTable (pairwise_ttests_single ''blink_rate'' ''Stimuli_type'' ''Gender''
        \<lparr>df_columns = [''blink_rate'', ''Gender'', ''Stimuli_type'', ''subject''],
         df_rows = [[PFloat 4, PStr ''Group_B'', PStr ''Alpha'', PStr ''S2'']]\<rparr>)]"
  by (simp add: analyse_def analyse_meta_def run_test_def first_factor_def pg_def py_in_def data_defs py_defs demo_defs)

text \<open>
  C4, as the code has it: when analyse meets a between-group or within-group factor that
  the configuration does not define for a subject or stimulus, or a value array that
  cannot be iterated or holds a value that cannot be stored, it prints a message and goes
  on.

  \<^item> No exception of these errors reaches the caller. When the configuration file and
    its columns of interest can be read, the sensors are known and the matrix has the
    cells of the indicators, an exception that leaves analyse is one a call of the
    statistics library raised on an assembled dataframe, or the IndexError of
    \<open>within_factor_list[0]\<close> or \<open>between_factor_list[0]\<close> on an empty list for the mixed
    anova; when these do not raise, analyse returns.
  \<^item> The dataframe of an indicator holds the rows of every cell, cell by cell; a cell
    contributes the rows of its values up to the first value that cannot be stored, and
    the values after that one are skipped (\<open>cell_rows\<close>).
  \<^item> A missing factor does not end the row: the row is completed without the value of
    that factor. A value can be stored when \<open>np.isnan\<close> accepts it and its row, so
    built, has as many entries as the frame has columns.
  \<^item> A cell that cannot be iterated contributes no row and prints the error message; a
    cell with a value that cannot be stored prints the error message; a missing factor is
    reported for every cell that has a value.
\<close>

theorem errors_logged_and_skipped:
  "(files env (json_file self) = Some json_data \<and>
      ebind (subscript json_data (PStr ''Columns_of_interest'')) (\<lambda>of_interest.
        ebind (subscript of_interest (PStr ''EyeTracker'')) (py_in ''GazeAOI'')) = Inr gaze_aoi \<and>
      (\<forall>sen \<in> set (sensors self). \<exists>metas. dict_get (meta_cols env) sen = Inr metas \<and>
         (\<forall>meta \<in> set metas. readable self meta)) \<longrightarrow>
      (\<forall>e. snd (analyse env self parameter_list between_list within_list statistical_test) = Inl e \<longrightarrow>
         (\<exists>c. pingouin env c = Some e \<and>
            call_frame c = \<lparr>df_columns = [call_dv c] @ between_list @ within_list @ [''subject''],
                            df_rows = all_rows env self json_data (call_dv c) between_list within_list\<rparr>) \<or>
         (e = IndexError \<and> statistical_test = ''Mixed_anova'' \<and> (between_list = [] \<or> within_list = []))) \<and>
      ((\<forall>c. pingouin env c = None) \<and>
       (statistical_test = ''Mixed_anova'' \<longrightarrow> between_list \<noteq> [] \<and> within_list \<noteq> []) \<longrightarrow>
       snd (analyse env self parameter_list between_list within_list statistical_test) = Inr ())) \<and>
   (readable self meta \<longrightarrow>
      indicator_data env self json_data meta between_list within_list =
        (all_messages env self json_data meta between_list within_list,
         Inr \<lparr>df_columns = [meta] @ between_list @ within_list @ [''subject''],
              df_rows = all_rows env self json_data meta between_list within_list\<rparr>)) \<and>
   fst (make_row self json_data between_list within_list sub stimuli_type stimuli_index v) =
     [v, subj_type sub] @ defined_between json_data sub between_list @ [PStr stimuli_type] @
     defined_within self json_data stimuli_type stimuli_index within_list @ [name sub] \<and>
   (storable env self json_data between_list within_list sub stimuli_type stimuli_index width v \<longleftrightarrow>
      (\<exists>null. isnan env v = Inr null) \<and>
      length (defined_between json_data sub between_list) +
      length (defined_within self json_data stimuli_type stimuli_index within_list) + 4 = width) \<and>
   (\<forall>e. iterate value_array = Inl e \<longrightarrow>
      cell_rows env self json_data between_list within_list sub stimuli_type stimuli_index
        (length column_list) value_array = [] \<and>
      cell_messages env self json_data between_list within_list sub stimuli_type stimuli_index
        column_list value_array = [ErrorInDataInstantiation]) \<and>
   (\<forall>values. iterate value_array = Inr values \<and>
      \<not> list_all (storable env self json_data between_list within_list sub stimuli_type
           stimuli_index (length column_list)) values \<longrightarrow>
      ErrorInDataInstantiation \<in> set (cell_messages env self json_data between_list within_list sub
        stimuli_type stimuli_index column_list value_array)) \<and>
   (\<forall>u us param e. iterate value_array = Inr (u # us) \<and> param \<in> set between_list \<and>
      param \<noteq> ''Subject_type'' \<and> between_value json_data sub param = Inl e \<longrightarrow>
      BetweenNotDefined param \<in> set (cell_messages env self json_data between_list within_list sub
        stimuli_type stimuli_index column_list value_array)) \<and>
   (\<forall>u us param e. iterate value_array = Inr (u # us) \<and> param \<in> set within_list \<and>
      param \<noteq> ''Stimuli_type'' \<and>
      within_value self json_data stimuli_type stimuli_index param = Inl e \<longrightarrow>
      WithinNotDefined param \<in> set (cell_messages env self json_data between_list within_list sub
        stimuli_type stimuli_index column_list value_array))"
proof (intro conjI allI impI)
  fix e
  assume "files env (json_file self) = Some json_data \<and>
      ebind (subscript json_data (PStr ''Columns_of_interest'')) (\<lambda>of_interest.
        ebind (subscript of_interest (PStr ''EyeTracker'')) (py_in ''GazeAOI'')) = Inr gaze_aoi \<and>
      (\<forall>sen \<in> set (sensors self). \<exists>metas. dict_get (meta_cols env) sen = Inr metas \<and>
         (\<forall>meta \<in> set metas. readable self meta))"
    and "snd (analyse env self parameter_list between_list within_list statistical_test) = Inl e"
  then show "(\<exists>c. pingouin env c = Some e \<and>
            call_frame c = \<lparr>df_columns = [call_dv c] @ between_list @ within_list @ [''subject''],
                            df_rows = all_rows env self json_data (call_dv c) between_list within_list\<rparr>) \<or>
         (e = IndexError \<and> statistical_test = ''Mixed_anova'' \<and> (between_list = [] \<or> within_list = []))"
    by (intro analyse_raises [where gaze_aoi = gaze_aoi and parameter_list = parameter_list]) simp_all
next
  assume "files env (json_file self) = Some json_data \<and>
      ebind (subscript json_data (PStr ''Columns_of_interest'')) (\<lambda>of_interest.
        ebind (subscript of_interest (PStr ''EyeTracker'')) (py_in ''GazeAOI'')) = Inr gaze_aoi \<and>
      (\<forall>sen \<in> set (sensors self). \<exists>metas. dict_get (meta_cols env) sen = Inr metas \<and>
         (\<forall>meta \<in> set metas. readable self meta))"
    and "(\<forall>c. pingouin env c = None) \<and>
      (statistical_test = ''Mixed_anova'' \<longrightarrow> between_list \<noteq> [] \<and> within_list \<noteq> [])"
  then show "snd (analyse env self parameter_list between_list within_list statistical_test) = Inr ()"
    by (intro analyse_returns [where json_data = json_data and gaze_aoi = gaze_aoi]) simp_all
next
  assume "readable self meta"
  then show "indicator_data env self json_data meta between_list within_list =
      (all_messages env self json_data meta between_list within_list,
       Inr \<lparr>df_columns = [meta] @ between_list @ within_list @ [''subject''],
            df_rows = all_rows env self json_data meta between_list within_list\<rparr>)"
    unfolding readable_def by (rule indicator_data_result)
next
  show "fst (make_row self json_data between_list within_list sub stimuli_type stimuli_index v) =
     [v, subj_type sub] @ defined_between json_data sub between_list @ [PStr stimuli_type] @
     defined_within self json_data stimuli_type stimuli_index within_list @ [name sub]"
    by (rule make_row_values)
qed (auto simp: cell_not_iterable storable_width intro: cell_error_logged cell_between_logged cell_within_logged)

theorem errors_logged_and_skipped_witness:
  "snd (analyse demo_env demo_analysed {''all''} [''Gender''] [''Stimuli_type''] ''Mixed_anova'') = Inr () \<and>
   BetweenNotDefined ''Gender'' \<in>
     set (fst (analyse demo_env demo_analysed {''all''} [''Gender''] [''Stimuli_type''] ''Mixed_anova'')) \<and>
   ErrorInDataInstantiation \<in>
     set (fst (analyse demo_env demo_analysed {''all''} [''Gender''] [''Stimuli_type''] ''Mixed_anova'')) \<and>
   all_messages demo_env demo_analysed demo_config ''blink_rate'' [''Gender''] [''Stimuli_type''] =
     [ErrorInDataInstantiation, ErrorInDataInstantiation,
      BetweenNotDefined ''Gender'', BetweenNotDefined ''Gender'',
      ErrorInDataInstantiation, ErrorInDataInstantiation] \<and>
   all_rows demo_env demo_analysed demo_config ''blink_rate'' [''Gender''] [''Stimuli_type''] =
     [[PFloat 4, PStr ''Group_B'', PStr ''Alpha'', PStr ''S2'']] \<and>
   all_messages demo_env demo_analysed demo_config ''blink_rate'' [''Subject_type'', ''Gender''] [''Stimuli_type''] =
     [BetweenNotDefined ''Gender'', ErrorInDataInstantiation, ErrorInDataInstantiation] \<and>
   all_rows demo_env demo_analysed demo_config ''blink_rate'' [''Subject_type'', ''Gender''] [''Stimuli_type''] =
     df_rows demo_frame_gender \<and>
   between_value demo_config (subjects demo_analysed ! 1) ''Gender'' = Inl KeyError \<and>
   cell_rows demo_env demo_analysed demo_config [''Gender''] [''Stimuli_type''] (subjects demo_analysed ! 1)
     ''Alpha'' 0 4 (PList [PFloat 4, PFloat 5]) =
     [[PFloat 4, PStr ''Group_B'', PStr ''Alpha'', PStr ''S2''],
      [PFloat 5, PStr ''Group_B'', PStr ''Alpha'', PStr ''S2'']] \<and>
   iterate (PFloat 6) = Inl TypeError"
proof -
  from errors_logged_and_skipped [where self = demo_analysed and meta = "''blink_rate''" and env = demo_env
      and json_data = demo_config and between_list = "[''Subject_type'', ''Gender'']"
      and within_list = "[''Stimuli_type'']", THEN conjunct2, THEN conjunct1] demo_blink_readable
  have "indicator_data demo_env demo_analysed demo_config ''blink_rate'' [''Subject_type'', ''Gender''] [''Stimuli_type''] =
      (all_messages demo_env demo_analysed demo_config ''blink_rate'' [''Subject_type'', ''Gender''] [''Stimuli_type''],
       Inr \<lparr>df_columns = [''blink_rate''] @ [''Subject_type'', ''Gender''] @ [''Stimuli_type''] @ [''subject''],
            df_rows = all_rows demo_env demo_analysed demo_config ''blink_rate''
              [''Subject_type'', ''Gender''] [''Stimuli_type'']\<rparr>)"
    by simp
  then have short: "all_messages demo_env demo_analysed demo_config ''blink_rate'' [''Subject_type'', ''Gender''] [''Stimuli_type''] =
     [BetweenNotDefined ''Gender'', ErrorInDataInstantiation, ErrorInDataInstantiation] \<and>
   all_rows demo_env demo_analysed demo_config ''blink_rate'' [''Subject_type'', ''Gender''] [''Stimuli_type''] =
     df_rows demo_frame_gender"
    unfolding demo_data_gender by (simp add: demo_frame_gender_def)
  note inst = errors_logged_and_skipped [where env = demo_env and self = demo_analysed
      and json_data = demo_config and meta = "''blink_rate''" and between_list = "[''Gender'']"
      and within_list = "[''Stimuli_type'']" and statistical_test = "''Mixed_anova''"
      and parameter_list = "{''all''}" and gaze_aoi = True]
  have "files demo_env (json_file demo_analysed) = Some demo_config"
    by (simp add: demo_defs)
  moreover have "ebind (subscript demo_config (PStr ''Columns_of_interest'')) (\<lambda>of_interest.
        ebind (subscript of_interest (PStr ''EyeTracker'')) (py_in ''GazeAOI'')) = Inr True"
    by (simp add: demo_config_def py_defs py_in_def)
  moreover have "\<forall>c. pingouin demo_env c = None"
    by (simp add: demo_env_def)
  ultimately have returns:
    "snd (analyse demo_env demo_analysed {''all''} [''Gender''] [''Stimuli_type''] ''Mixed_anova'') = Inr ()"
    using inst [THEN conjunct1] demo_sensors_readable by simp
  from inst [THEN conjunct2, THEN conjunct1] demo_blink_readable
  have "indicator_data demo_env demo_analysed demo_config ''blink_rate'' [''Gender''] [''Stimuli_type''] =
      (all_messages demo_env demo_analysed demo_config ''blink_rate'' [''Gender''] [''Stimuli_type''],
       Inr \<lparr>df_columns = [''blink_rate''] @ [''Gender''] @ [''Stimuli_type''] @ [''subject''],
            df_rows = all_rows demo_env demo_analysed demo_config ''blink_rate''
              [''Gender''] [''Stimuli_type'']\<rparr>)"
    by simp
  then have frame: "all_messages demo_env demo_analysed demo_config ''blink_rate'' [''Gender''] [''Stimuli_type''] =
     [ErrorInDataInstantiation, ErrorInDataInstantiation,
      BetweenNotDefined ''Gender'', BetweenNotDefined ''Gender'',
      ErrorInDataInstantiation, ErrorInDataInstantiation] \<and>
   all_rows demo_env demo_analysed demo_config ''blink_rate'' [''Gender''] [''Stimuli_type''] =
     [[PFloat 4, PStr ''Group_B'', PStr ''Alpha'', PStr ''S2'']]"
    unfolding demo_data_gender_only by simp
  have "between_value demo_config (subjects demo_analysed ! 1) ''Gender'' = Inl KeyError"
    by (simp add: between_value_def py_defs demo_defs)
  moreover have "cell_rows demo_env demo_analysed demo_config [''Gender''] [''Stimuli_type''] (subjects demo_analysed ! 1)
     ''Alpha'' 0 4 (PList [PFloat 4, PFloat 5]) =
     [[PFloat 4, PStr ''Group_B'', PStr ''Alpha'', PStr ''S2''],
      [PFloat 5, PStr ''Group_B'', PStr ''Alpha'', PStr ''S2'']]"
    by (simp add: cell_rows_def storable_def make_row_def between_value_def within_value_def py_defs demo_defs)
  moreover have "iterate (PFloat 6) = Inl TypeError"
    by (simp add: iterate_def)
  ultimately show ?thesis using returns frame short by (simp add: demo_analyse_gender)
qed

text \<open>
  C4 as stated fails: the array of subject S2 for category Alpha holds 4.0, \<open>None\<close> and
  5.0. The row of 5.0 could be stored, but it follows the entry that \<open>np.isnan\<close> rejects,
  so the handler is reached before it and the assembled dataframe does not hold it.
\<close>

theorem remaining_rows_counterexample:
  "cell demo_analysed ''blink_rate'' 1 0 = Inr (PList [PFloat 4, PNone, PFloat 5]) \<and>
   isnan demo_env PNone = Inl TypeError \<and>
   isnan demo_env (PFloat 5) = Inr False \<and>
   make_row demo_analysed demo_config [''Subject_type''] [''Stimuli_type''] (subjects demo_analysed ! 1)
     ''Alpha'' 0 (PFloat 5) = ([PFloat 5, PStr ''Group_B'', PStr ''Alpha'', PStr ''S2''], []) \<and>
   (\<exists>ms data. indicator_data demo_env demo_analysed demo_config ''blink_rate''
        [''Subject_type''] [''Stimuli_type''] = (ms, Inr data) \<and>
      length (df_columns data) = 4 \<and>
      [PFloat 5, PStr ''Group_B'', PStr ''Alpha'', PStr ''S2''] \<notin> set (df_rows data))"
  by (simp add: demo_data_default demo_frame_default_def)
    (simp add: cell_def matrix_item_def make_row_def between_value_def within_value_def py_defs demo_defs)

section \<open>The dataframes analyse hands to the statistics library\<close>

lemma obind_log:
  "m0 \<in> set (fst (obind m f)) \<Longrightarrow> m0 \<in> set (fst m) \<or> (\<exists>x. snd m = Inr x \<and> m0 \<in> set (fst (f x)))"
  by (auto simp: obind_def split: prod.splits sum.splits)

lemma between_factors_no_table: "m \<in> set (snd (between_factors json_data sub between_list)) \<Longrightarrow> \<not> is_table m"
  by (induction between_list arbitrary: m) (auto split: prod.splits sum.splits if_splits)

lemma within_factors_no_table:
  "m \<in> set (snd (within_factors self json_data stimuli_type stimuli_index within_list)) \<Longrightarrow> \<not> is_table m"
  by (induction within_list arbitrary: m) (auto split: prod.splits sum.splits if_splits)

lemma make_row_no_table:
  "m \<in> set (snd (make_row self json_data between_list within_list sub stimuli_type stimuli_index v)) \<Longrightarrow>
   \<not> is_table m"
  by (auto simp: make_row_messages dest: between_factors_no_table within_factors_no_table)

lemma add_rows_no_table:
  "m \<in> set (snd (add_rows env self json_data between_list within_list sub stimuli_type stimuli_index values data)) \<Longrightarrow>
   \<not> is_table m"
proof (induction "values" arbitrary: data m)
  case Nil
  then show ?case by simp
next
  case (Cons v vs)
  obtain row ms where mr: "make_row self json_data between_list within_list sub stimuli_type stimuli_index v = (row, ms)"
    by (cases "make_row self json_data between_list within_list sub stimuli_type stimuli_index v")
  have ms: "\<not> is_table m'" if "m' \<in> set ms" for m'
    using make_row_no_table [of m' self json_data between_list within_list sub stimuli_type stimuli_index v] that
    by (simp add: mr)
  show ?case
  proof (cases "isnan env v")
    case (Inl e)
    with Cons.prems ms show ?thesis by (auto simp: mr)
  next
    case (Inr null)
    show ?thesis
    proof (cases "loc_append data row")
      case (Inl e)
      with Cons.prems ms Inr show ?thesis by (auto simp: mr split: if_splits)
    next
      case inr: (Inr data')
      with Cons.prems ms Inr Cons.IH [of _ data'] show ?thesis
        by (auto simp: mr split: if_splits prod.splits)
    qed
  qed
qed

lemma instantiate_no_table:
  "m \<in> set (snd (instantiate env self json_data between_list within_list sub stimuli_type stimuli_index
      value_array data)) \<Longrightarrow> \<not> is_table m"
  by (cases "iterate value_array") (auto simp: instantiate_def dest: add_rows_no_table)

lemma types_rows_no_table:
  "m \<in> set (fst (types_rows env self json_data meta between_list within_list sub_index sub j types data)) \<Longrightarrow>
   \<not> is_table m"
proof (induction types arbitrary: j data m)
  case Nil
  then show ?case by simp
next
  case (Cons t ts)
  show ?case
  proof (cases "cell self meta sub_index j")
    case (Inl e)
    with Cons.prems show ?thesis by simp
  next
    case (Inr va)
    from Cons.prems have "m \<in> set (snd (instantiate env self json_data between_list within_list sub t j va data)) \<or>
      m \<in> set (fst (types_rows env self json_data meta between_list within_list sub_index sub (Suc j) ts
        (fst (instantiate env self json_data between_list within_list sub t j va data))))"
      by (auto simp: Inr swap_result dest!: obind_log)
    with Cons.IH instantiate_no_table show ?thesis by blast
  qed
qed

lemma subjects_rows_no_table:
  "m \<in> set (fst (subjects_rows env self json_data meta between_list within_list i subs data)) \<Longrightarrow>
   \<not> is_table m"
proof (induction subs arbitrary: i data m)
  case Nil
  then show ?case by simp
next
  case (Cons sub rest)
  from Cons.prems show ?case
    by (auto dest!: obind_log dest: types_rows_no_table Cons.IH)
qed

lemma pg_log: "m \<in> set (fst (pg env c)) \<Longrightarrow> m = PrintTable c"
  by (auto simp: pg_def split: option.splits)

lemma run_test_tables:
  "PrintTable c \<in> set (fst (run_test env statistical_test meta between_list within_list data)) \<Longrightarrow>
   call_frame c = data \<and> call_dv c = meta"
  by (auto simp: run_test_def first_factor_def dest!: obind_log pg_log split: if_splits)

lemma analyse_meta_tables:
  assumes "PrintTable c \<in> set (fst (analyse_meta env self json_data skipped parameter_list between_list
      within_list statistical_test meta))"
  shows "call_dv c = meta \<and>
         (\<exists>ms. indicator_data env self json_data meta between_list within_list = (ms, Inr (call_frame c)))"
proof -
  from assms have "PrintTable c \<in> set (fst (indicator_data env self json_data meta between_list within_list)) \<or>
      (\<exists>data. snd (indicator_data env self json_data meta between_list within_list) = Inr data \<and>
         PrintTable c \<in> set (fst (run_test env statistical_test meta between_list within_list data)))"
    by (auto simp: analyse_meta_def dest!: obind_log split: if_splits)
  moreover have "PrintTable c \<notin> set (fst (indicator_data env self json_data meta between_list within_list))"
    using subjects_rows_no_table [of "PrintTable c"] by (auto simp: indicator_data_def)
  ultimately obtain data where d: "snd (indicator_data env self json_data meta between_list within_list) = Inr data"
    and t: "PrintTable c \<in> set (fst (run_test env statistical_test meta between_list within_list data))"
    by blast
  from run_test_tables [OF t] d show ?thesis
    by (metis prod.collapse)
qed

lemma metas_loop_log:
  "m \<in> set (fst (metas_loop body metas)) \<Longrightarrow> \<exists>meta \<in> set metas. m \<in> set (fst (body meta))"
  by (induction metas) (auto dest!: obind_log)

lemma sensors_loop_log:
  "m \<in> set (fst (sensors_loop env body sens)) \<Longrightarrow> \<exists>meta. m \<in> set (fst (body meta))"
  by (induction sens) (auto dest!: obind_log metas_loop_log)

lemma analyse_tables:
  assumes "PrintTable c \<in> set (fst (analyse env self parameter_list between_list within_list statistical_test))"
  shows "\<exists>json_data ms. files env (json_file self) = Some json_data \<and>
           indicator_data env self json_data (call_dv c) between_list within_list = (ms, Inr (call_frame c))"
proof -
  from assms obtain json_data skipped meta where f: "files env (json_file self) = Some json_data"
    and "PrintTable c \<in> set (fst (analyse_meta env self json_data skipped parameter_list between_list
      within_list statistical_test meta))"
    by (auto simp: analyse_def load_def Let_def dest!: obind_log sensors_loop_log split: option.splits)
  from analyse_meta_tables [OF this(2)] f show ?thesis by auto
qed


lemma demo_analyse:
  "analyse demo_env demo_analysed {''all''} [''Subject_type''] [''Stimuli_type''] ''anova'' =
     ([AnalysisFor ''blink_rate'', ErrorInDataInstantiation, ErrorInDataInstantiation,
       TestName ''blink_rate'' ''ANOVA'',
       PrintTable (anova ''blink_rate'' [''Subject_type''] demo_frame_default)],
      Inr ())"
  by (simp add: analyse_def analyse_meta_def run_test_def pg_def py_in_def data_defs py_defs demo_defs
      demo_frame_default_def)

text \<open>
  C3: the dataframe assembled for an indicator has exactly the columns
  [indicator name] ++ between_factor_list ++ within_factor_list ++ ["subject"], in that
  order, whatever rows the loops over subjects and stimulus types add; and every dataframe
  whose table analyse prints is the one assembled for the call's dependent variable, so it
  has these columns.
\<close>

theorem indicator_frame_columns:
  "(\<forall>ms data. indicator_data env self json_data meta between_list within_list = (ms, Inr data) \<longrightarrow>
      df_columns data = [meta] @ between_list @ within_list @ [''subject'']) \<and>
   (\<forall>c. PrintTable c \<in> set (fst (analyse env self parameter_list between_list within_list statistical_test)) \<longrightarrow>
      df_columns (call_frame c) = [call_dv c] @ between_list @ within_list @ [''subject''])"
proof (intro conjI allI impI)
  fix ms data
  assume "indicator_data env self json_data meta between_list within_list = (ms, Inr data)"
  from subjects_rows_frame [OF this [unfolded indicator_data_def]]
  show "df_columns data = [meta] @ between_list @ within_list @ [''subject'']"
    by (simp add: DataFrame_def)
next
  fix c
  assume "PrintTable c \<in> set (fst (analyse env self parameter_list between_list within_list statistical_test))"
  from analyse_tables [OF this] obtain json_data ms where
    "indicator_data env self json_data (call_dv c) between_list within_list = (ms, Inr (call_frame c))"
    by blast
  from subjects_rows_frame [OF this [unfolded indicator_data_def]]
  show "df_columns (call_frame c) = [call_dv c] @ between_list @ within_list @ [''subject'']"
    by (simp add: DataFrame_def)
qed

theorem indicator_frame_columns_witness:
  "indicator_data demo_env demo_analysed demo_config ''blink_rate''
     [''Subject_type'', ''Gender''] [''Stimuli_type''] =
     ([BetweenNotDefined ''Gender'', ErrorInDataInstantiation, ErrorInDataInstantiation],
      Inr demo_frame_gender) \<and>
   df_columns demo_frame_gender =
     [''blink_rate''] @ [''Subject_type'', ''Gender''] @ [''Stimuli_type''] @ [''subject''] \<and>
   PrintTable (anova ''blink_rate'' [''Subject_type''] demo_frame_default) \<in>
     set (fst (analyse demo_env demo_analysed {''all''} [''Subject_type''] [''Stimuli_type''] ''anova'')) \<and>
   df_columns demo_frame_default = [''blink_rate''] @ [''Subject_type''] @ [''Stimuli_type''] @ [''subject'']"
proof -
  note cols = indicator_frame_columns [of demo_env demo_analysed demo_config "''blink_rate''"
      "[''Subject_type'', ''Gender'']" "[''Stimuli_type'']"]
  from cols demo_data_gender have "df_columns demo_frame_gender =
      [''blink_rate''] @ [''Subject_type'', ''Gender''] @ [''Stimuli_type''] @ [''subject'']"
    by blast
  then show ?thesis
    by (simp add: demo_data_gender demo_analyse) (simp add: demo_frame_default_def)
qed

section \<open>The rows of a dataframe\<close>

text \<open>
  The value of an extra within-group factor is looked up in two steps: the stimulus name is
  read from \<open>self.stimuli[stimuli_type]\<close> by position, then the factor is read from the same
  entry of the configuration by that name. Whenever the entry names its stimuli by strings,
  as a mapping from names or as a sequence of names, one of the two steps raises.
\<close>

lemma seq_item_member: "seq_item xs i = Inr x \<Longrightarrow> x \<in> set xs"
  by (auto simp: seq_item_def split: if_splits)

lemma positional_then_by_name:
  assumes "names_stimuli listed" and "subscript listed (PInt i) = Inr stimulus_name"
  shows "\<exists>e. subscript listed stimulus_name = Inl e"
proof (cases listed)
  case (PDict kvs)
  with assms(2) show ?thesis by (simp add: subscript_def dict_item_def)
next
  case (PList xs)
  with assms(2) have "stimulus_name \<in> set xs"
    by (auto simp: subscript_def index_of_key_def dest: seq_item_member)
  with assms(1) PList obtain s where "stimulus_name = PStr s"
    by (cases stimulus_name) (auto simp: names_stimuli_def list_all_iff is_str_def)
  then show ?thesis by (simp add: PList subscript_def index_of_key_def)
next
  case (PTuple xs)
  with assms(2) have "stimulus_name \<in> set xs"
    by (auto simp: subscript_def index_of_key_def dest: seq_item_member)
  with assms(1) PTuple obtain s where "stimulus_name = PStr s"
    by (cases stimulus_name) (auto simp: names_stimuli_def list_all_iff is_str_def)
  then show ?thesis by (simp add: PTuple subscript_def index_of_key_def)
qed (insert assms(1), simp_all add: names_stimuli_def)

lemma stimuli_loop_values:
  "stimuli_loop stimuli_data ks acc = Inr r \<Longrightarrow> map_of r k = Some v \<Longrightarrow>
   subscript stimuli_data k = Inr v \<or> map_of acc k = Some v"
proof (induction ks arbitrary: acc)
  case Nil
  then show ?case by simp
next
  case (Cons k' ks)
  from Cons.prems(1) obtain v' where s: "subscript stimuli_data k' = Inr v'"
    and r: "stimuli_loop stimuli_data ks (AList.update k' v' acc) = Inr r"
    by (auto simp: ebind_eq_Inr)
  from Cons.IH [OF r Cons.prems(2)] s show ?case
    by (auto simp: update_conv' split: if_splits)
qed

lemma within_value_raises:
  assumes "stimuliArrayInitialisation env self0 = Inr (stimuli self)"
    and "files env (json_file self0) = Some json_data"
    and "subscript json_data (PStr ''Stimuli'') = Inr stimuli_data"
    and "\<forall>listed. subscript stimuli_data (PStr stimuli_type) = Inr listed \<longrightarrow> names_stimuli listed"
  shows "\<exists>e. within_value self json_data stimuli_type stimuli_index param = Inl e"
proof (cases "within_value self json_data stimuli_type stimuli_index param")
  case (Inl e)
  then show ?thesis by blast
next
  case (Inr found)
  then obtain listed stimulus_name by_name where
    g: "dict_get (stimuli self) (PStr stimuli_type) = Inr listed"
    and p: "subscript listed (PInt (int stimuli_index)) = Inr stimulus_name"
    and b: "subscript stimuli_data (PStr stimuli_type) = Inr by_name"
    and n: "\<exists>factors. subscript by_name stimulus_name = Inr factors"
    by (auto simp: within_value_def ebind_eq_Inr assms(3))
  from assms(1-3) obtain ks where "stimuli_loop stimuli_data ks [] = Inr (stimuli self)"
    by (auto simp: stimuliArrayInitialisation_def load_def ebind_eq_Inr)
  from stimuli_loop_values [OF this, of "PStr stimuli_type" listed] g
  have "subscript stimuli_data (PStr stimuli_type) = Inr listed"
    by (auto simp: dict_get_def split: option.splits)
  with b assms(4) have "by_name = listed" "names_stimuli listed" by auto
  with positional_then_by_name [OF this(2) p] n show ?thesis by auto
qed


text \<open>
  C2 at a configuration that declares the within-group factor Difficulty for stimulus a1
  of category Alpha: the lookup of the factor raises for this mapping (and for the list of
  category Beta), so the row built for a value lacks the factor's value. With
  within_factor_list = ["Stimuli_type", "Difficulty"] every row is one entry short and
  none is stored; with within_factor_list = ["Difficulty"] the rows are stored without the
  factor's value.
\<close>

theorem within_factor_value_missing:
  "ebind (subscript demo_config (PStr ''Stimuli'')) (\<lambda>by_type.
     ebind (subscript by_type (PStr ''Alpha'')) (\<lambda>by_name.
     ebind (subscript by_name (PStr ''a1'')) (\<lambda>factors.
       subscript factors (PStr ''Difficulty'')))) = Inr (PStr ''hard'') \<and>
   within_value demo_analysed demo_config ''Alpha'' 0 ''Difficulty'' = Inl KeyError \<and>
   make_row demo_analysed demo_config [''Subject_type''] [''Stimuli_type'', ''Difficulty'']
     (subjects demo_analysed ! 0) ''Alpha'' 0 (PFloat 1) =
     ([PFloat 1, PStr ''Group_A'', PStr ''Alpha'', PStr ''S1''], [WithinNotDefined ''Difficulty'']) \<and>
   indicator_data demo_env demo_analysed demo_config ''blink_rate''
     [''Subject_type''] [''Stimuli_type'', ''Difficulty''] =
     ([WithinNotDefined ''Difficulty'', ErrorInDataInstantiation,
       WithinNotDefined ''Difficulty'', ErrorInDataInstantiation,
       WithinNotDefined ''Difficulty'', ErrorInDataInstantiation,
       ErrorInDataInstantiation],
      Inr \<lparr>df_columns = [''blink_rate'', ''Subject_type'', ''Stimuli_type'', ''Difficulty'', ''subject''],
           df_rows = []\<rparr>) \<and>
   indicator_data demo_env demo_analysed demo_config ''blink_rate''
     [''Subject_type''] [''Difficulty''] =
     ([WithinNotDefined ''Difficulty'', WithinNotDefined ''Difficulty'', WithinNotDefined ''Difficulty'',
       WithinNotDefined ''Difficulty'', WithinNotDefined ''Difficulty'', ErrorInDataInstantiation,
       ErrorInDataInstantiation],
      Inr \<lparr>df_columns = [''blink_rate'', ''Subject_type'', ''Difficulty'', ''subject''],
           df_rows =
             [[PFloat 1, PStr ''Group_A'', PStr ''Alpha'', PStr ''S1''],
              [PFloat 2, PStr ''Group_A'', PStr ''Alpha'', PStr ''S1''],
              [PFloat 3, PStr ''Group_A'', PStr ''Beta'', PStr ''S1''],
              [PFloat 4, PStr ''Group_B'', PStr ''Alpha'', PStr ''S2'']]\<rparr>)"
  by (simp add: data_defs py_defs demo_defs)


section \<open>The constructor\<close>

lemma make_subjects_dir_same: "make_subjects_dir env self = Inr self' \<Longrightarrow> self' = self"
  by (auto simp: make_subjects_dir_def ebind_eq_Inr split: if_splits option.splits)

lemma init_steps:
  assumes "init env file method sens aoi = Inr self"
  shows "\<exists>json_data. files env file = Some json_data \<and>
           subscript json_data (PStr ''Path'') = Inr (path self) \<and>
           subscript json_data (PStr ''Experiment_name'') = Inr (exp_name self) \<and>
           json_file self = file \<and> sensors self = sens \<and> meta_matrix_dict self = [] \<and>
           set_aoi env (self\<lparr>aoi_coords := PNone, columns := [], stimuli := [], subjects := []\<rparr>)
             json_data aoi = Inr (aoi_coords self) \<and>
           columnsArrayInitialisation env (self\<lparr>columns := [], stimuli := [], subjects := []\<rparr>) =
             Inr (columns self) \<and>
           stimuliArrayInitialisation env (self\<lparr>stimuli := [], subjects := []\<rparr>) = Inr (stimuli self) \<and>
           subjectArrayInitialisation env (self\<lparr>subjects := []\<rparr>) method = Inr (subjects self)"
  using assms
  by (auto simp: init_def ebind_eq_Inr Let_def load_def split: option.splits dest!: make_subjects_dir_same)

lemma demo_init:
  "init demo_env ''demo.json'' ''SQL'' [''EyeTracker''] (PStr ''NA'') = Inr (demo_experiment demo_sql ''SQL'')"
  by (simp add: init_def py_defs demo_defs set_aoi_def display_def columnsArrayInitialisation_def
      stimuliArrayInitialisation_def subjectArrayInitialisation_def select_database_def Subject_def
      make_subjects_dir_def Let_def)

lemma demo_mmi:
  "metaMatrixInitialisation demo_env (demo_experiment demo_sql ''SQL'') False False = (demo_analysed, None)"
  by (simp add: metaMatrixInitialisation_def allocate_def new_matrix_def set_cell_def py_defs demo_defs Let_def)

section \<open>The indicator matrix\<close>

lemma update_entries: "set (AList.update k v al) \<subseteq> insert (k, v) (set al)"
  by (induction al) auto

lemma new_matrix_shaped: "shaped (length (subjects self)) (length (stimuli self)) (new_matrix self)"
  by (simp add: shaped_def new_matrix_def list_all_iff)

lemma fold_update_entries:
  "\<forall>(k, arr) \<in> set d. P arr \<Longrightarrow> P v \<Longrightarrow> \<forall>(k, arr) \<in> set (fold (\<lambda>k d. AList.update k v d) ks d). P arr"
proof (induction ks arbitrary: d)
  case Nil
  then show ?case by simp
next
  case (Cons k ks)
  have "\<forall>(k, arr) \<in> set (AList.update k v d). P arr"
    using Cons.prems update_entries [of k v d] by auto
  from Cons.IH [OF this Cons.prems(2)] show ?case by simp
qed

lemma allocate_shaped:
  "\<forall>(k, arr) \<in> set (meta_matrix_dict self). shaped (length (subjects self)) (length (stimuli self)) arr \<Longrightarrow>
   \<forall>(k, arr) \<in> set (allocate env self). shaped (length (subjects self)) (length (stimuli self)) arr"
  unfolding allocate_def by (rule fold_update_entries) (simp_all add: new_matrix_shaped)

lemma set_cell_shaped:
  assumes "set_cell d meta i j v = Inr d'" and "\<forall>(k, arr) \<in> set d. shaped n m arr"
  shows "\<forall>(k, arr) \<in> set d'. shaped n m arr"
proof -
  from assms(1) obtain arr where arr: "map_of d meta = Some arr"
    and d': "d' = AList.update meta (arr[i := (arr ! i)[j := v]]) d" and i: "i < length arr"
    by (auto simp: set_cell_def dict_get_def ebind_eq_Inr split: option.splits if_splits)
  from arr have "(meta, arr) \<in> set d" by (rule map_of_SomeD)
  with assms(2) have "shaped n m arr" by auto
  then have "shaped n m (arr[i := (arr ! i)[j := v]])"
    using i by (auto simp: shaped_def list_all_iff dest!: set_update_subset_insert [THEN subsetD])
  then show ?thesis
    using assms(2) update_entries [of meta "arr[i := (arr ! i)[j := v]]" d] unfolding d' by auto
qed

lemma fill_metas_shaped:
  "\<forall>(k, arr) \<in> set d. shaped n m arr \<Longrightarrow> \<forall>(k, arr) \<in> set (fst (fill_metas d i j metas)). shaped n m arr"
proof (induction metas arbitrary: d)
  case Nil
  then show ?case by simp
next
  case (Cons mv metas)
  obtain meta v where mv: "mv = (meta, v)" by (cases mv)
  show ?case
  proof (cases "set_cell d meta i j v")
    case (Inl e)
    with Cons.prems show ?thesis by (simp add: mv)
  next
    case (Inr d')
    from set_cell_shaped [OF Inr Cons.prems] have "\<forall>(k, arr) \<in> set d'. shaped n m arr" .
    from Cons.IH [OF this] show ?thesis by (simp add: mv Inr)
  qed
qed

lemma fill_types_shaped:
  "\<forall>(k, arr) \<in> set d. shaped n m arr \<Longrightarrow> \<forall>(k, arr) \<in> set (fst (fill_types d i j types)). shaped n m arr"
proof (induction types arbitrary: d j)
  case Nil
  then show ?case by simp
next
  case (Cons tm types)
  obtain t metas where tm: "tm = (t, metas)" by (cases tm)
  obtain d' r where fm: "fill_metas d i j metas = (d', r)" by (cases "fill_metas d i j metas")
  from fill_metas_shaped [OF Cons.prems, of i j metas] have d': "\<forall>(k, arr) \<in> set d'. shaped n m arr"
    by (simp add: fm)
  show ?case
  proof (cases r)
    case None
    from Cons.IH [OF d'] show ?thesis by (simp add: tm fm None)
  next
    case (Some e)
    with d' show ?thesis by (simp add: tm fm)
  qed
qed

lemma fill_subjects_shaped:
  "\<forall>(k, arr) \<in> set d. shaped n m arr \<Longrightarrow>
   \<forall>(k, arr) \<in> set (fst (snd (fill_subjects env af sf d handled subs))). shaped n m arr"
proof (induction subs arbitrary: d handled)
  case Nil
  then show ?case by simp
next
  case (Cons sub subs)
  show ?case
  proof (cases "subjectAnalysis env sub af sf")
    case (Inl e)
    with Cons.prems show ?thesis by simp
  next
    case (Inr meta)
    obtain d' r where ft: "fill_types d (length handled) 0 meta = (d', r)"
      by (cases "fill_types d (length handled) 0 meta")
    from fill_types_shaped [OF Cons.prems, of "length handled" 0 meta]
    have d': "\<forall>(k, arr) \<in> set d'. shaped n m arr" by (simp add: ft)
    show ?thesis
    proof (cases r)
      case None
      from Cons.IH [OF d'] show ?thesis by (simp add: Inr ft None)
    next
      case (Some e)
      with d' show ?thesis by (simp add: Inr ft)
    qed
  qed
qed

lemma fill_subjects_length:
  "length (fst (fill_subjects env af sf d handled subs)) = length handled + length subs"
proof (induction subs arbitrary: d handled)
  case Nil
  then show ?case by simp
next
  case (Cons sub subs)
  show ?case
  proof (cases "subjectAnalysis env sub af sf")
    case (Inl e)
    then show ?thesis by simp
  next
    case (Inr meta)
    obtain d' r where ft: "fill_types d (length handled) 0 meta = (d', r)"
      by (cases "fill_types d (length handled) 0 meta")
    show ?thesis
    proof (cases r)
      case None
      then show ?thesis using Cons.IH [of d' "handled @ [sub\<lparr>aggregate_meta := meta\<rparr>]"]
        by (simp add: Inr ft)
    next
      case (Some e)
      then show ?thesis by (simp add: Inr ft)
    qed
  qed
qed

lemma metaMatrixInitialisation_fields:
  "stimuli (fst (metaMatrixInitialisation env self sf af)) = stimuli self"
  "length (subjects (fst (metaMatrixInitialisation env self sf af))) = length (subjects self)"
  using fill_subjects_length [of env af sf "allocate env self" "[]" "subjects self"]
  by (auto simp: metaMatrixInitialisation_def split: prod.splits)

lemma metaMatrixInitialisation_ok:
  assumes "matrix_ok self"
  shows "matrix_ok (fst (metaMatrixInitialisation env self sf af))"
proof -
  from assms have "\<forall>(k, arr) \<in> set (allocate env self). shaped (length (subjects self)) (length (stimuli self)) arr"
    unfolding matrix_ok_def by (rule allocate_shaped)
  from fill_subjects_shaped [OF this, of env af sf "[]" "subjects self"]
    fill_subjects_length [of env af sf "allocate env self" "[]" "subjects self"]
  show ?thesis
    by (auto simp: matrix_ok_def metaMatrixInitialisation_def split: prod.splits)
qed

lemma run_fields:
  "stimuli (run env self c) = stimuli self"
  "length (subjects (run env self c)) = length (subjects self)"
  by (cases c; simp add: metaMatrixInitialisation_fields)+

lemma run_ok: "matrix_ok self \<Longrightarrow> matrix_ok (run env self c)"
  by (cases c) (simp_all add: metaMatrixInitialisation_ok)

lemma runs_ok:
  "matrix_ok self \<Longrightarrow>
   matrix_ok (foldl (run env) self calls) \<and>
   stimuli (foldl (run env) self calls) = stimuli self \<and>
   length (subjects (foldl (run env) self calls)) = length (subjects self)"
proof (induction calls arbitrary: self)
  case Nil
  then show ?case by simp
next
  case (Cons c calls)
  from Cons.IH [OF run_ok [OF Cons.prems, of env c]] show ?case
    by (simp add: run_fields)
qed


lemma stimuli_loop_keys:
  "stimuli_loop stimuli_data ks acc = Inr r \<Longrightarrow> distinct (map fst acc) \<Longrightarrow>
   distinct (map fst r) \<and> set (map fst r) = set (map fst acc) \<union> set ks"
proof (induction ks arbitrary: acc)
  case Nil
  then show ?case by simp
next
  case (Cons k ks)
  from Cons.prems(1) obtain v where "stimuli_loop stimuli_data ks (AList.update k v acc) = Inr r"
    by (auto simp: ebind_eq_Inr)
  from Cons.IH [OF this] Cons.prems(2) show ?case
    by (auto simp: distinct_update update_keys split: if_splits)
qed

lemma stimuli_count:
  assumes "stimuliArrayInitialisation env self = Inr stims"
    and "files env (json_file self) = Some json_data"
    and "subscript json_data (PStr ''Stimuli'') = Inr (PDict categories)"
  shows "length stims = card (set (map fst categories))"
proof -
  from assms have loop: "stimuli_loop (PDict categories) (map (\<lambda>kv. PStr (fst kv)) categories) [] = Inr stims"
    by (simp add: stimuliArrayInitialisation_def load_def iterate_def)
  from stimuli_loop_keys [OF loop] have d: "distinct (map fst stims)"
    and s: "set (map fst stims) = PStr ` set (map fst categories)"
    by auto
  have "length stims = card (set (map fst stims))"
    using d by (metis distinct_card length_map)
  also have "\<dots> = card (set (map fst categories))"
    unfolding s by (rule card_image) (simp add: inj_on_def)
  finally show ?thesis .
qed

text \<open>
  C1: on every object the constructor returns, after any sequence of method calls (so also
  once metaMatrixInitialisation has been run), every indicator name of the indicator
  matrix maps to a 2D array whose first axis has the length of the subject list and whose
  rows have as many cells as the configuration's Stimuli mapping has distinct categories.
\<close>

theorem matrix_shape:
  assumes "init env file method sens aoi = Inr self"
    and "files env file = Some json_data"
    and "subscript json_data (PStr ''Stimuli'') = Inr (PDict categories)"
  shows "\<forall>(indicator, arr) \<in> set (meta_matrix_dict (foldl (run env) self calls)).
           shaped (length (subjects (foldl (run env) self calls))) (card (set (map fst categories))) arr"
proof -
  from init_steps [OF assms(1)] assms(2) have
    "stimuliArrayInitialisation env (self\<lparr>stimuli := [], subjects := []\<rparr>) = Inr (stimuli self)"
    and cfg: "files env (json_file (self\<lparr>stimuli := [], subjects := []\<rparr>)) = Some json_data"
    by auto
  from stimuli_count [OF this assms(3)] have n: "length (stimuli self) = card (set (map fst categories))" .
  have "matrix_ok self"
    using init_steps [OF assms(1)] by (auto simp: matrix_ok_def)
  from runs_ok [OF this, of env calls] show ?thesis
    unfolding matrix_ok_def n [symmetric] by auto
qed

theorem matrix_shape_witness:
  "init demo_env ''demo.json'' ''SQL'' [''EyeTracker''] (PStr ''NA'') = Inr (demo_experiment demo_sql ''SQL'') \<and>
   foldl (run demo_env) (demo_experiment demo_sql ''SQL'') [MetaMatrixInitialisation False False] = demo_analysed \<and>
   map fst (meta_matrix_dict demo_analysed) = [''blink_rate'', ''pupil_size''] \<and>
   length (subjects demo_analysed) = 2 \<and>
   map_of (meta_matrix_dict demo_analysed) ''blink_rate'' =
     Some [[PList [PFloat 1, PFloat 2], PList [PFloat 3]], [PList [PFloat 4, PNone, PFloat 5], PFloat 6]] \<and>
   shaped 2 2 [[PList [PFloat 1, PFloat 2], PList [PFloat 3]], [PList [PFloat 4, PNone, PFloat 5], PFloat 6]] \<and>
   shaped 2 2 [[PNone, PNone], [PNone, PNone]]"
proof -
  have run: "foldl (run demo_env) (demo_experiment demo_sql ''SQL'') [MetaMatrixInitialisation False False] = demo_analysed"
    by (simp add: demo_mmi)
  have cfg: "files demo_env ''demo.json'' = Some demo_config" by (simp add: demo_env_def)
  have st: "subscript demo_config (PStr ''Stimuli'') =
      Inr (PDict [(''Alpha'', PDict [(''a1'', PDict [(''Difficulty'', PStr ''hard'')])]), (''Beta'', PList [PStr ''b1''])])"
    by (simp add: demo_config_def py_defs)
  from matrix_shape [OF demo_init cfg st, of "[MetaMatrixInitialisation False False]"]
  show ?thesis
    unfolding run
    by (simp add: demo_init demo_mmi shaped_def) (simp add: demo_analysed_def demo_experiment_def)
qed

lemma fold_update_keys:
  "fst ` set (fold (\<lambda>k d. AList.update k v d) ks d) = fst ` set d \<union> set ks"
  by (induction ks arbitrary: d) (auto simp: dom_update)

lemma set_cell_keys:
  assumes "set_cell d meta i j v = Inr d'"
  shows "map fst d' = map fst d"
proof -
  from assms obtain arr where arr: "map_of d meta = Some arr"
    and d': "d' = AList.update meta (arr[i := (arr ! i)[j := v]]) d"
    by (auto simp: set_cell_def dict_get_def ebind_eq_Inr split: option.splits if_splits)
  from arr have "(meta, arr) \<in> set d" by (rule map_of_SomeD)
  then have "meta \<in> set (map fst d)" by force
  then show ?thesis unfolding d' by (simp add: update_keys)
qed

lemma fill_metas_keys: "map fst (fst (fill_metas d i j metas)) = map fst d"
proof (induction metas arbitrary: d)
  case Nil
  show ?case by simp
next
  case (Cons mv metas)
  obtain meta v where mv: "mv = (meta, v)" by (cases mv)
  show ?case
  proof (cases "set_cell d meta i j v")
    case (Inl e)
    then show ?thesis by (simp add: mv)
  next
    case (Inr d')
    with Cons.IH [of d'] set_cell_keys [OF Inr] show ?thesis by (simp add: mv)
  qed
qed

lemma fill_types_keys: "map fst (fst (fill_types d i j types)) = map fst d"
proof (induction types arbitrary: d j)
  case Nil
  show ?case by simp
next
  case (Cons tm types)
  obtain t metas where tm: "tm = (t, metas)" by (cases tm)
  obtain d' r where fm: "fill_metas d i j metas = (d', r)" by (cases "fill_metas d i j metas")
  from fill_metas_keys [of d i j metas] have d': "map fst d' = map fst d" by (simp add: fm)
  show ?case
    using Cons.IH [of d' "Suc j"] d' by (cases r) (simp_all add: tm fm)
qed

lemma fill_subjects_keys:
  "map fst (fst (snd (fill_subjects env af sf d handled subs))) = map fst d"
proof (induction subs arbitrary: d handled)
  case Nil
  show ?case by simp
next
  case (Cons sub subs)
  show ?case
  proof (cases "subjectAnalysis env sub af sf")
    case (Inl e)
    then show ?thesis by simp
  next
    case (Inr meta)
    obtain d' r where ft: "fill_types d (length handled) 0 meta = (d', r)"
      by (cases "fill_types d (length handled) 0 meta")
    from fill_types_keys [of d "length handled" 0 meta] have d': "map fst d' = map fst d"
      by (simp add: ft)
    show ?thesis
      using Cons.IH [of d' "handled @ [sub\<lparr>aggregate_meta := meta\<rparr>]"] d'
      by (cases r) (simp_all add: Inr ft)
  qed
qed

lemma metaMatrixInitialisation_keys:
  "fst ` set (meta_matrix_dict (fst (metaMatrixInitialisation env self sf af))) =
     fst ` set (meta_matrix_dict self) \<union> set (concat (map snd (meta_cols env)))"
proof -
  obtain subs d r where fs: "fill_subjects env af sf (allocate env self) [] (subjects self) = (subs, d, r)"
    by (cases "fill_subjects env af sf (allocate env self) [] (subjects self)")
  from fill_subjects_keys [of env af sf "allocate env self" "[]" "subjects self"]
  have "map fst d = map fst (allocate env self)" by (simp add: fs)
  then have "set (map fst d) = set (map fst (allocate env self))" by simp
  then have "fst ` set d = fst ` set (allocate env self)" by simp
  also have "\<dots> = fst ` set (meta_matrix_dict self) \<union> set (concat (map snd (meta_cols env)))"
    unfolding allocate_def by (rule fold_update_keys)
  finally show ?thesis by (simp add: metaMatrixInitialisation_def fs)
qed

lemma cell_matrix_item: "cell self meta i j = matrix_item (meta_matrix_dict self) meta i j"
  by (simp add: cell_def)

lemma set_cell_item:
  assumes "set_cell d m i j v = Inr d'"
  shows "matrix_item d' m' i' j' = (if m' = m \<and> i' = i \<and> j' = j then Inr v else matrix_item d m' i' j')"
proof -
  from assms obtain arr where arr: "map_of d m = Some arr"
    and d': "d' = AList.update m (arr[i := (arr ! i)[j := v]]) d"
    and i: "i < length arr" and j: "j < length (arr ! i)"
    by (auto simp: set_cell_def dict_get_def ebind_eq_Inr split: option.splits if_splits)
  show ?thesis
  proof (cases "m' = m")
    case False
    then show ?thesis by (simp add: matrix_item_def dict_get_def d' update_conv')
  next
    case True
    show ?thesis
    proof (cases "i' = i")
      case False
      then show ?thesis using arr by (simp add: True matrix_item_def dict_get_def d' update_conv')
    next
      case i': True
      show ?thesis
        using arr i j by (simp add: True i' matrix_item_def dict_get_def d' update_conv' nth_list_update)
    qed
  qed
qed

lemma last_value_Cons:
  "last_value ((m, v) # metas) m' =
     (case last_value metas m' of Some v' \<Rightarrow> Some v' | None \<Rightarrow> if m' = m then Some v else None)"
  by (simp add: last_value_def map_add_def split: option.splits)

lemma fill_metas_item:
  "fill_metas d i j metas = (d', None) \<Longrightarrow>
   matrix_item d' m i' j' =
     (if i' = i \<and> j' = j
      then (case last_value metas m of Some v \<Rightarrow> Inr v | None \<Rightarrow> matrix_item d m i' j')
      else matrix_item d m i' j')"
proof (induction metas arbitrary: d)
  case Nil
  then show ?case by (simp add: last_value_def)
next
  case (Cons mv metas)
  obtain m0 v0 where mv: "mv = (m0, v0)" by (cases mv)
  from Cons.prems obtain d1 where sc: "set_cell d m0 i j v0 = Inr d1"
    and rest: "fill_metas d1 i j metas = (d', None)"
    by (auto simp: mv split: sum.splits)
  show ?case
    unfolding Cons.IH [OF rest] mv last_value_Cons set_cell_item [OF sc]
    by (auto split: option.splits)
qed

lemma fill_types_item:
  "fill_types d i j0 types = (d', None) \<Longrightarrow>
   matrix_item d' m i' j' =
     (if i' = i \<and> j0 \<le> j' \<and> j' < j0 + length types
      then (case last_value (snd (types ! (j' - j0))) m of Some v \<Rightarrow> Inr v | None \<Rightarrow> matrix_item d m i' j')
      else matrix_item d m i' j')"
proof (induction types arbitrary: d j0)
  case Nil
  then show ?case by auto
next
  case (Cons tm types)
  obtain t metas where tm: "tm = (t, metas)" by (cases tm)
  from Cons.prems obtain d1 where fm: "fill_metas d i j0 metas = (d1, None)"
    and rest: "fill_types d1 i (Suc j0) types = (d', None)"
    by (auto simp: tm split: prod.splits option.splits)
  show ?case
    unfolding Cons.IH [OF rest] fill_metas_item [OF fm] tm
    by (auto simp: nth_Cons' Suc_diff_le split: option.splits)
qed


lemma last_value_distinct:
  "(m, v) \<in> set metas \<Longrightarrow> distinct (map fst metas) \<Longrightarrow> last_value metas m = Some v"
  unfolding last_value_def by (rule map_of_is_SomeI) (simp_all add: rev_map [symmetric])

lemma fill_subjects_item:
  "fill_subjects env af sf d handled subs = (subs', d', None) \<Longrightarrow>
   \<exists>new. subs' = handled @ new \<and>
     list_all2 (\<lambda>sub sub'. subjectAnalysis env sub af sf = Inr (aggregate_meta sub') \<and>
                  sub' = sub\<lparr>aggregate_meta := aggregate_meta sub'\<rparr>) subs new \<and>
     (\<forall>m i' j'. matrix_item d' m i' j' =
        (if length handled \<le> i' \<and> i' < length handled + length new \<and>
            j' < length (aggregate_meta (new ! (i' - length handled)))
         then (case last_value (snd (aggregate_meta (new ! (i' - length handled)) ! j')) m of
                 Some v \<Rightarrow> Inr v
               | None \<Rightarrow> matrix_item d m i' j')
         else matrix_item d m i' j'))"
proof (induction subs arbitrary: d handled)
  case Nil
  then show ?case by auto
next
  case (Cons sub rest)
  from Cons.prems obtain meta d1 where an: "subjectAnalysis env sub af sf = Inr meta"
    and ft: "fill_types d (length handled) 0 meta = (d1, None)"
    and fs: "fill_subjects env af sf d1 (handled @ [sub\<lparr>aggregate_meta := meta\<rparr>]) rest = (subs', d', None)"
    by (auto simp: Let_def split: sum.splits prod.splits option.splits)
  let ?sub' = "sub\<lparr>aggregate_meta := meta\<rparr>"
  from Cons.IH [OF fs] obtain new' where s': "subs' = (handled @ [?sub']) @ new'"
    and l: "list_all2 (\<lambda>sub sub'. subjectAnalysis env sub af sf = Inr (aggregate_meta sub') \<and>
                  sub' = sub\<lparr>aggregate_meta := aggregate_meta sub'\<rparr>) rest new'"
    and it: "\<And>m i' j'. matrix_item d' m i' j' =
        (if length (handled @ [?sub']) \<le> i' \<and> i' < length (handled @ [?sub']) + length new' \<and>
            j' < length (aggregate_meta (new' ! (i' - length (handled @ [?sub']))))
         then (case last_value (snd (aggregate_meta (new' ! (i' - length (handled @ [?sub']))) ! j')) m of
                 Some v \<Rightarrow> Inr v
               | None \<Rightarrow> matrix_item d1 m i' j')
         else matrix_item d1 m i' j')"
    by blast
  have d1: "matrix_item d1 m i' j' =
      (if i' = length handled \<and> j' < length meta
       then (case last_value (snd (meta ! j')) m of Some v \<Rightarrow> Inr v | None \<Rightarrow> matrix_item d m i' j')
       else matrix_item d m i' j')" for m i' j'
    using fill_types_item [OF ft, of m i' j'] by simp
  have items: "matrix_item d' m i' j' =
        (if length handled \<le> i' \<and> i' < length handled + length (?sub' # new') \<and>
            j' < length (aggregate_meta ((?sub' # new') ! (i' - length handled)))
         then (case last_value (snd (aggregate_meta ((?sub' # new') ! (i' - length handled)) ! j')) m of
                 Some v \<Rightarrow> Inr v
               | None \<Rightarrow> matrix_item d m i' j')
         else matrix_item d m i' j')" for m i' j'
  proof (cases "i' = length handled")
    case True
    then show ?thesis by (auto simp: it d1 split: option.splits)
  next
    case False
    then have "(?sub' # new') ! (i' - length handled) = new' ! (i' - length (handled @ [?sub']))"
      if "length handled \<le> i'"
      using that by (simp add: nth_Cons' )
    moreover from False have "matrix_item d1 m i' j' = matrix_item d m i' j'"
      by (simp add: d1)
    ultimately show ?thesis using False by (auto simp: it split: option.splits)
  qed
  show ?case
  proof (intro exI [of _ "?sub' # new'"] conjI allI)
    show "subs' = handled @ ?sub' # new'" by (simp add: s')
    show "list_all2 (\<lambda>sub sub'. subjectAnalysis env sub af sf = Inr (aggregate_meta sub') \<and>
                  sub' = sub\<lparr>aggregate_meta := aggregate_meta sub'\<rparr>) (sub # rest) (?sub' # new')"
      using l an by simp
  qed (rule items)
qed

lemma metaMatrixInitialisation_filled:
  assumes "metaMatrixInitialisation env self standardise_flag average_flag = (self', None)"
    and "i < length (subjects self)"
  shows "subjectAnalysis env (subjects self ! i) average_flag standardise_flag =
           Inr (aggregate_meta (subjects self' ! i))"
    and "j < length (aggregate_meta (subjects self' ! i)) \<Longrightarrow>
         (m, v) \<in> set (snd (aggregate_meta (subjects self' ! i) ! j)) \<Longrightarrow>
         distinct (map fst (snd (aggregate_meta (subjects self' ! i) ! j))) \<Longrightarrow>
         cell self' m i j = Inr v"
proof -
  from assms(1) obtain subs' d' where
    fs: "fill_subjects env average_flag standardise_flag (allocate env self) [] (subjects self) = (subs', d', None)"
    and self': "self' = self\<lparr>subjects := subs', meta_matrix_dict := d'\<rparr>"
    by (auto simp: metaMatrixInitialisation_def split: prod.splits)
  from fill_subjects_item [OF fs] have
    l: "list_all2 (\<lambda>sub sub'. subjectAnalysis env sub average_flag standardise_flag = Inr (aggregate_meta sub') \<and>
          sub' = sub\<lparr>aggregate_meta := aggregate_meta sub'\<rparr>) (subjects self) subs'"
    and it: "\<And>m i' j'. matrix_item d' m i' j' =
        (if i' < length subs' \<and> j' < length (aggregate_meta (subs' ! i'))
         then (case last_value (snd (aggregate_meta (subs' ! i') ! j')) m of
                 Some v \<Rightarrow> Inr v
               | None \<Rightarrow> matrix_item (allocate env self) m i' j')
         else matrix_item (allocate env self) m i' j')"
    by auto
  from l assms(2) show "subjectAnalysis env (subjects self ! i) average_flag standardise_flag =
      Inr (aggregate_meta (subjects self' ! i))"
    by (simp add: self' list_all2_conv_all_nth)
  assume j: "j < length (aggregate_meta (subjects self' ! i))"
    and mv: "(m, v) \<in> set (snd (aggregate_meta (subjects self' ! i) ! j))"
    and dist: "distinct (map fst (snd (aggregate_meta (subjects self' ! i) ! j)))"
  from l assms(2) have "i < length subs'" by (simp add: list_all2_lengthD)
  with j last_value_distinct [OF mv dist] show "cell self' m i j = Inr v"
    by (simp add: cell_matrix_item self' it)
qed


text \<open>
  C6: the indicator matrix is built lazily. The object the constructor returns has no
  entry in the indicator-name mapping; no call other than metaMatrixInitialisation changes
  the mapping of any object; a call of metaMatrixInitialisation on the new object leaves
  it with exactly the indicator names of \<open>Sensor.meta_cols\<close> as keys; and when that call
  raises nothing, the cell of an indicator for subject \<open>i\<close> and stimulus type \<open>j\<close> holds the
  value the subject's analysis gave for that indicator and stimulus type.
\<close>

theorem matrix_lazily_built:
  assumes "init env file method sens aoi = Inr self"
  shows "meta_matrix_dict self = [] \<and>
         (\<forall>self' c. (\<forall>sf af. c \<noteq> MetaMatrixInitialisation sf af) \<longrightarrow>
            meta_matrix_dict (run env self' c) = meta_matrix_dict self') \<and>
         fst ` set (meta_matrix_dict (run env self (MetaMatrixInitialisation sf af))) =
           set (concat (map snd (meta_cols env))) \<and>
         (\<forall>self' i j m v.
            metaMatrixInitialisation env self sf af = (self', None) \<and> i < length (subjects self) \<and>
            j < length (aggregate_meta (subjects self' ! i)) \<and>
            (m, v) \<in> set (snd (aggregate_meta (subjects self' ! i) ! j)) \<and>
            distinct (map fst (snd (aggregate_meta (subjects self' ! i) ! j))) \<longrightarrow>
            subjectAnalysis env (subjects self ! i) af sf = Inr (aggregate_meta (subjects self' ! i)) \<and>
            cell self' m i j = Inr v)"
proof -
  have empty: "meta_matrix_dict self = []"
    using init_steps [OF assms] by auto
  have other: "meta_matrix_dict (run env self' c) = meta_matrix_dict self'"
    if "\<forall>sf af. c \<noteq> MetaMatrixInitialisation sf af" for self' c
  proof (cases c)
    case (MetaMatrixInitialisation a b)
    with that show ?thesis by blast
  qed simp_all
  have keys: "fst ` set (meta_matrix_dict (run env self (MetaMatrixInitialisation sf af))) =
      set (concat (map snd (meta_cols env)))"
    using metaMatrixInitialisation_keys [of env self sf af] by (simp add: empty)
  have filled: "subjectAnalysis env (subjects self ! i) af sf = Inr (aggregate_meta (subjects self' ! i)) \<and>
      cell self' m i j = Inr v"
    if "metaMatrixInitialisation env self sf af = (self', None) \<and> i < length (subjects self) \<and>
        j < length (aggregate_meta (subjects self' ! i)) \<and>
        (m, v) \<in> set (snd (aggregate_meta (subjects self' ! i) ! j)) \<and>
        distinct (map fst (snd (aggregate_meta (subjects self' ! i) ! j)))" for self' i j m v
    using that by (blast intro: metaMatrixInitialisation_filled)
  from empty other keys filled show ?thesis by blast
qed

theorem matrix_lazily_built_witness:
  "init demo_env ''demo.json'' ''SQL'' [''EyeTracker''] (PStr ''NA'') = Inr (demo_experiment demo_sql ''SQL'') \<and>
   meta_matrix_dict (demo_experiment demo_sql ''SQL'') = [] \<and>
   meta_matrix_dict (run demo_env demo_analysed
      (Analyse {''all''} [''Subject_type''] [''Stimuli_type''] ''anova'')) = meta_matrix_dict demo_analysed \<and>
   run demo_env (demo_experiment demo_sql ''SQL'') (MetaMatrixInitialisation False False) = demo_analysed \<and>
   fst ` set (meta_matrix_dict demo_analysed) = {''blink_rate'', ''pupil_size''} \<and>
   cell demo_analysed ''blink_rate'' 1 0 = Inr (PList [PFloat 4, PNone, PFloat 5])"
proof -
  note built = matrix_lazily_built [OF demo_init, of False False]
  from built have empty: "meta_matrix_dict (demo_experiment demo_sql ''SQL'') = []"
    by (rule conjunct1)
  have cols: "meta_cols demo_env = [(''EyeTracker'', [''blink_rate'', ''pupil_size''])]"
    by (simp add: demo_env_def)
  from built have keys: "fst ` set (meta_matrix_dict demo_analysed) = {''blink_rate'', ''pupil_size''}"
    by (simp add: demo_mmi cols insert_commute)
  have filled: "cell demo_analysed ''blink_rate'' 1 0 = Inr (PList [PFloat 4, PNone, PFloat 5])"
    by (simp add: demo_analysed_def demo_experiment_def cell_def matrix_item_def py_defs)
  from empty keys filled show ?thesis
    by (simp add: demo_init demo_mmi)
qed

section \<open>The area of interest\<close>

text \<open>
  C10: for every string argument \<open>aoi\<close> other than "draw" (not only "NA") the constructed
  object's \<open>aoi_coords\<close> is the tuple (0, 0, Display_width, Display_height), where the two
  display values are the entries "Display_width" and "Display_height" of the entry
  "EyeTracker" of the entry "Analysis_Params" of the configuration file; for every tuple
  argument it is that tuple.
\<close>

theorem aoi_coords_by_argument:
  assumes "init env file method sens aoi = Inr self"
  shows "(\<forall>s. aoi = PStr s \<and> s \<noteq> ''draw'' \<longrightarrow>
            (\<exists>json_data params tracker w h. files env file = Some json_data \<and>
               subscript json_data (PStr ''Analysis_Params'') = Inr params \<and>
               subscript params (PStr ''EyeTracker'') = Inr tracker \<and>
               subscript tracker (PStr ''Display_width'') = Inr w \<and>
               subscript tracker (PStr ''Display_height'') = Inr h \<and>
               aoi_coords self = PTuple [PInt 0, PInt 0, w, h])) \<and>
         (\<forall>t. aoi = PTuple t \<longrightarrow> aoi_coords self = PTuple t)"
  using init_steps [OF assms]
  by (auto simp: set_aoi_def display_def ebind_eq_Inr)

lemma demo_init_whole:
  "init demo_env ''demo.json'' ''SQL'' [''EyeTracker''] (PStr ''whole'') = Inr (demo_experiment demo_sql ''SQL'')"
  by (simp add: init_def py_defs demo_defs set_aoi_def display_def columnsArrayInitialisation_def
      stimuliArrayInitialisation_def subjectArrayInitialisation_def select_database_def Subject_def
      make_subjects_dir_def Let_def)

lemma demo_init_tuple:
  "\<exists>self. init demo_env ''demo.json'' ''SQL'' [''EyeTracker''] (PTuple [PInt 5, PInt 6, PInt 7, PInt 8]) = Inr self"
  by (simp add: init_def py_defs demo_defs set_aoi_def display_def columnsArrayInitialisation_def
      stimuliArrayInitialisation_def subjectArrayInitialisation_def select_database_def Subject_def
      make_subjects_dir_def Let_def)

theorem aoi_coords_by_argument_witness:
  "init demo_env ''demo.json'' ''SQL'' [''EyeTracker''] (PStr ''whole'') = Inr (demo_experiment demo_sql ''SQL'') \<and>
   files demo_env ''demo.json'' = Some demo_config \<and>
   subscript demo_config (PStr ''Analysis_Params'') =
     Inr (PDict [(''EyeTracker'', PDict [(''Display_width'', PInt 1920), (''Display_height'', PInt 1080)])]) \<and>
   subscript (PDict [(''EyeTracker'', PDict [(''Display_width'', PInt 1920), (''Display_height'', PInt 1080)])])
     (PStr ''EyeTracker'') = Inr (PDict [(''Display_width'', PInt 1920), (''Display_height'', PInt 1080)]) \<and>
   subscript (PDict [(''Display_width'', PInt 1920), (''Display_height'', PInt 1080)]) (PStr ''Display_width'') =
     Inr (PInt 1920) \<and>
   subscript (PDict [(''Display_width'', PInt 1920), (''Display_height'', PInt 1080)]) (PStr ''Display_height'') =
     Inr (PInt 1080) \<and>
   aoi_coords (demo_experiment demo_sql ''SQL'') = PTuple [PInt 0, PInt 0, PInt 1920, PInt 1080] \<and>
   (\<exists>self. init demo_env ''demo.json'' ''SQL'' [''EyeTracker''] (PTuple [PInt 5, PInt 6, PInt 7, PInt 8]) = Inr self \<and>
           aoi_coords self = PTuple [PInt 5, PInt 6, PInt 7, PInt 8])"
proof -
  from demo_init_tuple obtain self where
    tuple: "init demo_env ''demo.json'' ''SQL'' [''EyeTracker''] (PTuple [PInt 5, PInt 6, PInt 7, PInt 8]) = Inr self"
    ..
  from aoi_coords_by_argument [OF tuple] have "aoi_coords self = PTuple [PInt 5, PInt 6, PInt 7, PInt 8]"
    by simp
  with tuple have ex: "\<exists>self. init demo_env ''demo.json'' ''SQL'' [''EyeTracker'']
      (PTuple [PInt 5, PInt 6, PInt 7, PInt 8]) = Inr self \<and>
      aoi_coords self = PTuple [PInt 5, PInt 6, PInt 7, PInt 8]"
    by blast
  from aoi_coords_by_argument [OF demo_init_whole] ex show ?thesis
    by (simp add: demo_init_whole) (simp add: py_defs demo_config_def demo_experiment_def demo_env_def)
qed

section \<open>The columns of interest\<close>

lemma columns_loop_listed:
  assumes "subscript json_data (PStr ''Columns_of_interest'') = Inr of_interest"
    and "\<forall>c \<in> set classes. ebind (subscript of_interest (PStr c)) iterate = Inr (listed c)"
  shows "columns_loop json_data classes acc = Inr (acc @ concat (map listed classes))"
  using assms(2)
proof (induction classes arbitrary: acc)
  case Nil
  show ?case by simp
next
  case (Cons c classes)
  from Cons.prems have "ebind (subscript of_interest (PStr c)) iterate = Inr (listed c)" by simp
  then obtain v where "subscript of_interest (PStr c) = Inr v" "iterate v = Inr (listed c)"
    by (auto simp: ebind_eq_Inr)
  with Cons.IH [of "acc @ listed c"] Cons.prems assms(1) show ?case by simp
qed

text \<open>
  C7: columnsArrayInitialisation returns the column names the configuration lists under
  Columns_of_interest, class by class: first the sensors of the object in their order,
  then the class "Extra", each class in the order of the file.
\<close>

theorem columns_listed:
  assumes "files env (json_file self) = Some json_data"
    and "subscript json_data (PStr ''Columns_of_interest'') = Inr of_interest"
    and "\<forall>c \<in> set (sensors self @ [''Extra'']). ebind (subscript of_interest (PStr c)) iterate = Inr (listed c)"
  shows "columnsArrayInitialisation env self = Inr (concat (map listed (sensors self @ [''Extra''])))"
  using columns_loop_listed [OF assms(2,3), of "[]"] assms(1)
  by (simp add: columnsArrayInitialisation_def load_def)

theorem columns_listed_witness:
  "files demo_env ''demo.json'' = Some demo_config \<and>
   subscript demo_config (PStr ''Columns_of_interest'') =
     Inr (PDict [(''EyeTracker'', PList [PStr ''GazeLeftx'', PStr ''GazeAOI'']),
                 (''Extra'', PList [PStr ''EventSource''])]) \<and>
   columnsArrayInitialisation demo_env (demo_experiment demo_sql ''SQL'') =
     Inr [PStr ''GazeLeftx'', PStr ''GazeAOI'', PStr ''EventSource'']"
proof -
  let ?listed = "\<lambda>c. if c = ''EyeTracker'' then [PStr ''GazeLeftx'', PStr ''GazeAOI''] else [PStr ''EventSource'']"
  have f: "files demo_env (json_file (demo_experiment demo_sql ''SQL'')) = Some demo_config"
    by (simp add: demo_env_def demo_experiment_def)
  have c: "subscript demo_config (PStr ''Columns_of_interest'') =
      Inr (PDict [(''EyeTracker'', PList [PStr ''GazeLeftx'', PStr ''GazeAOI'']),
                  (''Extra'', PList [PStr ''EventSource''])])"
    by (simp add: demo_config_def py_defs)
  have l: "\<forall>c \<in> set (sensors (demo_experiment demo_sql ''SQL'') @ [''Extra'']).
      ebind (subscript (PDict [(''EyeTracker'', PList [PStr ''GazeLeftx'', PStr ''GazeAOI'']),
                               (''Extra'', PList [PStr ''EventSource''])]) (PStr c)) iterate = Inr (?listed c)"
    by (simp add: demo_experiment_def py_defs)
  from columns_listed [OF f c l] f c show ?thesis
    by (simp add: demo_experiment_def)
qed

section \<open>The subject list\<close>

lemma names_loop_unassigned:
  "names_loop env self method None k subject_names acc =
     (if subject_names = [] then Inr acc else Inl UnboundLocalError)"
  by (cases subject_names) simp_all

lemma types_loop_unassigned_raises:
  assumes "k \<in> set ks" and "ebind (subscript subject_data k) iterate = Inr (n # ns)"
  shows "\<exists>e. types_loop env self method None subject_data ks acc = Inl e"
  using assms(1)
proof (induction ks arbitrary: acc)
  case Nil
  then show ?case by simp
next
  case (Cons k' ks)
  show ?case
  proof (cases "ebind (subscript subject_data k') iterate")
    case (Inl e)
    then show ?thesis by (cases "subscript subject_data k'") simp_all
  next
    case (Inr subject_names)
    then obtain listed where l: "subscript subject_data k' = Inr listed" "iterate listed = Inr subject_names"
      by (auto simp: ebind_eq_Inr)
    show ?thesis
    proof (cases "subject_names = []")
      case True
      with Inr assms(2) have "k \<noteq> k'" by auto
      with Cons.prems have "k \<in> set ks" by simp
      from Cons.IH [OF this, of acc] show ?thesis
        by (simp add: l True)
    next
      case False
      then show ?thesis by (simp add: l names_loop_unassigned)
    qed
  qed
qed

lemma types_loop_unassigned:
  assumes "\<forall>k \<in> set ks. \<exists>subject_names. ebind (subscript subject_data k) iterate = Inr subject_names"
    and "\<exists>k \<in> set ks. ebind (subscript subject_data k) iterate \<noteq> Inr []"
  shows "types_loop env self method None subject_data ks acc = Inl UnboundLocalError"
  using assms
proof (induction ks arbitrary: acc)
  case Nil
  then show ?case by simp
next
  case (Cons k' ks)
  from Cons.prems(1) obtain subject_names where sn: "ebind (subscript subject_data k') iterate = Inr subject_names"
    by auto
  then obtain listed where l: "subscript subject_data k' = Inr listed" "iterate listed = Inr subject_names"
    by (auto simp: ebind_eq_Inr)
  show ?case
  proof (cases "subject_names = []")
    case True
    with sn Cons.prems(2) have "\<exists>k \<in> set ks. ebind (subscript subject_data k) iterate \<noteq> Inr []"
      by auto
    with Cons.IH [of acc] Cons.prems(1) show ?thesis
      by (simp add: l True)
  next
    case False
    then show ?thesis by (simp add: l names_loop_unassigned)
  qed
qed

text \<open>
  C8: with a reading method other than "SQL" and "CSV" and a configuration that lists at
  least one subject, subjectArrayInitialisation raises: it never returns a subject list
  built on some default data source. When every subject type of the configuration lists
  its subjects as a sequence or mapping, the exception is the UnboundLocalError of the
  local variable \<open>database\<close>.
\<close>

theorem no_default_source:
  assumes "method \<noteq> ''SQL''" and "method \<noteq> ''CSV''"
    and "files env (json_file self) = Some json_data"
    and "subscript json_data (PStr ''Subjects'') = Inr subject_data"
    and "iterate subject_data = Inr ks"
    and "k \<in> set ks" and "ebind (subscript subject_data k) iterate = Inr (n # ns)"
  shows "(\<exists>e. subjectArrayInitialisation env self method = Inl e) \<and>
         ((\<forall>k \<in> set ks. \<exists>subject_names. ebind (subscript subject_data k) iterate = Inr subject_names) \<longrightarrow>
            subjectArrayInitialisation env self method = Inl UnboundLocalError)"
proof -
  have eq: "subjectArrayInitialisation env self method = types_loop env self method None subject_data ks []"
    using assms(1-5) by (simp add: subjectArrayInitialisation_def load_def select_database_def)
  have "\<exists>k \<in> set ks. ebind (subscript subject_data k) iterate \<noteq> Inr []"
    by (rule bexI [of _ k]) (simp_all add: assms(6,7))
  then show ?thesis
    unfolding eq using types_loop_unassigned_raises [OF assms(6,7)] types_loop_unassigned
    by blast
qed

theorem no_default_source_witness:
  "files demo_env ''demo.json'' = Some demo_config \<and>
   iterate (PDict [(''Group_A'', PDict [(''S1'', PDict [(''Gender'', PStr ''F'')])]),
                   (''Group_B'', PDict [(''S2'', PDict [])])]) = Inr [PStr ''Group_A'', PStr ''Group_B''] \<and>
   subjectArrayInitialisation demo_env (demo_experiment demo_sql ''SQL'') ''XML'' = Inl UnboundLocalError"
proof -
  let ?subject_data = "PDict [(''Group_A'', PDict [(''S1'', PDict [(''Gender'', PStr ''F'')])]),
                              (''Group_B'', PDict [(''S2'', PDict [])])]"
  have m: "''XML'' \<noteq> ''SQL''" "''XML'' \<noteq> ''CSV''" by simp_all
  have f: "files demo_env (json_file (demo_experiment demo_sql ''SQL'')) = Some demo_config"
    by (simp add: demo_env_def demo_experiment_def)
  have s: "subscript demo_config (PStr ''Subjects'') = Inr ?subject_data"
    by (simp add: demo_config_def py_defs)
  have i: "iterate ?subject_data = Inr [PStr ''Group_A'', PStr ''Group_B'']"
    by (simp add: iterate_def)
  have k: "PStr ''Group_A'' \<in> set [PStr ''Group_A'', PStr ''Group_B'']" by simp
  have n: "ebind (subscript ?subject_data (PStr ''Group_A'')) iterate = Inr (PStr ''S1'' # [])"
    by (simp add: py_defs)
  have w: "\<forall>k \<in> set [PStr ''Group_A'', PStr ''Group_B''].
      \<exists>subject_names. ebind (subscript ?subject_data k) iterate = Inr subject_names"
    by (simp add: py_defs)
  from no_default_source [OF m f s i k n] w f i show ?thesis
    by (simp add: demo_experiment_def)
qed

lemma names_loop_assigned:
  "names_loop env self method (Some db) k subject_names acc =
     Inr (acc @ map (\<lambda>subject_name. Subject env (path self) subject_name k (stimuli self) (columns self)
                        (json_file self) (sensors self) db method (aoi_coords self)) subject_names)"
  by (induction subject_names arbitrary: acc) simp_all

lemma types_loop_assigned:
  assumes "types_loop env self method (Some db) subject_data ks acc = Inr subs"
  shows "subs = acc @
     map (\<lambda>(k, subject_name). Subject env (path self) subject_name k (stimuli self) (columns self)
            (json_file self) (sensors self) db method (aoi_coords self))
       (concat (map (\<lambda>k. case ebind (subscript subject_data k) iterate of
                            Inl e \<Rightarrow> []
                          | Inr subject_names \<Rightarrow> map (Pair k) subject_names) ks))"
  using assms
proof (induction ks arbitrary: acc)
  case Nil
  then show ?case by simp
next
  case (Cons k ks)
  from Cons.prems obtain listed subject_names acc' where
    l: "subscript subject_data k = Inr listed" "iterate listed = Inr subject_names"
    and n: "names_loop env self method (Some db) k subject_names acc = Inr acc'"
    and r: "types_loop env self method (Some db) subject_data ks acc' = Inr subs"
    by (auto simp: ebind_eq_Inr)
  from Cons.IH [OF r] n show ?case
    by (simp add: l names_loop_assigned comp_def)
qed

text \<open>
  C5: subjectArrayInitialisation selects the data source by the reading method. With "SQL"
  every Subject is constructed on one engine for the database file
  <path>/Data/<Experiment_name>.db, with "CSV" on the directory <path>/Data/csv_files; the
  returned list holds one Subject per subject name the configuration lists, grouped by
  subject type in the order of the configuration.
\<close>

theorem subject_sources:
  assumes "subjectArrayInitialisation env self method = Inr subs"
    and "method = ''SQL'' \<or> method = ''CSV''"
  shows "\<exists>json_data subject_data db.
           files env (json_file self) = Some json_data \<and>
           subscript json_data (PStr ''Subjects'') = Inr subject_data \<and>
           (method = ''SQL'' \<longrightarrow>
              (\<exists>p n. path self = PStr p \<and> subscript json_data (PStr ''Experiment_name'') = Inr (PStr n) \<and>
                     db = Engine (''sqlite:///'' @ p @ ''/Data/'' @ n @ ''.db''))) \<and>
           (method = ''CSV'' \<longrightarrow> (\<exists>p. path self = PStr p \<and> db = Directory (p @ ''/Data/csv_files''))) \<and>
           (\<forall>sub \<in> set subs. database sub = db) \<and>
           map (\<lambda>sub. (subj_type sub, name sub)) subs = listed_subjects subject_data"
proof -
  from assms(1) obtain json_data subject_data db ks where
    f: "files env (json_file self) = Some json_data"
    and s: "subscript json_data (PStr ''Subjects'') = Inr subject_data"
    and d: "select_database self json_data method = Inr db"
    and i: "iterate subject_data = Inr ks"
    and t: "types_loop env self method db subject_data ks [] = Inr subs"
    by (auto simp: subjectArrayInitialisation_def load_def ebind_eq_Inr split: option.splits)
  from d assms(2) obtain db' where db: "db = Some db'"
    by (auto simp: select_database_def ebind_eq_Inr split: if_splits)
  have sql: "\<exists>p n. path self = PStr p \<and> subscript json_data (PStr ''Experiment_name'') = Inr (PStr n) \<and>
         db' = Engine (''sqlite:///'' @ p @ ''/Data/'' @ n @ ''.db'')" if "method = ''SQL''"
    using d that unfolding db
    by (auto simp: select_database_def ebind_eq_Inr str_operand_eq_Inr)
  have csv: "\<exists>p. path self = PStr p \<and> db' = Directory (p @ ''/Data/csv_files'')" if "method = ''CSV''"
    using d that unfolding db
    by (auto simp: select_database_def ebind_eq_Inr str_operand_eq_Inr)
  note subs = types_loop_assigned [OF t [unfolded db]]
  have all: "\<forall>sub \<in> set subs. database sub = db'"
    by (subst subs) (auto simp: Subject_def)
  have listed: "map (\<lambda>sub. (subj_type sub, name sub)) subs = listed_subjects subject_data"
    by (subst subs) (simp add: listed_subjects_def i Subject_def comp_def case_prod_unfold)
  from f s sql csv all listed show ?thesis by blast
qed


lemma demo_subjects_sql:
  "subjectArrayInitialisation demo_env ((demo_experiment demo_sql ''SQL'')\<lparr>subjects := []\<rparr>) ''SQL'' =
     Inr [demo_subject ''Group_A'' ''S1'' demo_sql ''SQL'', demo_subject ''Group_B'' ''S2'' demo_sql ''SQL'']"
  by (simp add: subjectArrayInitialisation_def select_database_def Subject_def py_defs demo_defs)

lemma demo_subjects_csv:
  "subjectArrayInitialisation demo_env ((demo_experiment demo_sql ''SQL'')\<lparr>subjects := []\<rparr>) ''CSV'' =
     Inr [demo_subject ''Group_A'' ''S1'' (Directory ''/data/Data/csv_files'') ''CSV'',
          demo_subject ''Group_B'' ''S2'' (Directory ''/data/Data/csv_files'') ''CSV'']"
  by (simp add: subjectArrayInitialisation_def select_database_def Subject_def py_defs demo_defs)

theorem subject_sources_witness:
  "subjectArrayInitialisation demo_env ((demo_experiment demo_sql ''SQL'')\<lparr>subjects := []\<rparr>) ''SQL'' =
     Inr [demo_subject ''Group_A'' ''S1'' demo_sql ''SQL'', demo_subject ''Group_B'' ''S2'' demo_sql ''SQL''] \<and>
   database (demo_subject ''Group_A'' ''S1'' demo_sql ''SQL'') = Engine ''sqlite:////data/Data/Demo.db'' \<and>
   database (demo_subject ''Group_B'' ''S2'' demo_sql ''SQL'') = Engine ''sqlite:////data/Data/Demo.db'' \<and>
   subjectArrayInitialisation demo_env ((demo_experiment demo_sql ''SQL'')\<lparr>subjects := []\<rparr>) ''CSV'' =
     Inr [demo_subject ''Group_A'' ''S1'' (Directory ''/data/Data/csv_files'') ''CSV'',
          demo_subject ''Group_B'' ''S2'' (Directory ''/data/Data/csv_files'') ''CSV''] \<and>
   listed_subjects (PDict [(''Group_A'', PDict [(''S1'', PDict [(''Gender'', PStr ''F'')])]),
                           (''Group_B'', PDict [(''S2'', PDict [])])]) =
     [(PStr ''Group_A'', PStr ''S1''), (PStr ''Group_B'', PStr ''S2'')]"
  using subject_sources [OF demo_subjects_sql] subject_sources [OF demo_subjects_csv]
  by (simp add: demo_subjects_sql demo_subjects_csv)
    (simp add: demo_subject_def demo_sql_def listed_subjects_def py_defs)

section \<open>getMetaData\<close>

lemma first_index_None: "first_index P xs = None \<longleftrightarrow> (\<forall>x \<in> set xs. \<not> P x)"
  by (induction xs) auto

lemma find_str_None: "find_str t s = None \<longleftrightarrow> \<not> sublist t s"
  by (induction s) (auto simp: sublist_Cons_right)

lemma index_method_nonneg: "index_method listed stim = Inr i \<Longrightarrow> 0 \<le> i"
  by (cases listed) (auto simp: index_method_def ebind_eq_Inr split: option.splits)

lemma index_method_absent:
  assumes "py_in stim listed \<noteq> Inr True"
  shows "\<exists>e. index_method listed stim = Inl e"
proof (cases listed)
  case (PList xs)
  with assms have "first_index (\<lambda>x. x = PStr stim) xs = None"
    by (auto simp: py_in_def first_index_None)
  then show ?thesis by (simp add: PList index_method_def list_index_def)
next
  case (PTuple xs)
  with assms have "first_index (\<lambda>x. x = PStr stim) xs = None"
    by (auto simp: py_in_def first_index_None)
  then show ?thesis by (simp add: PTuple index_method_def list_index_def)
next
  case (PStr s)
  with assms have "find_str stim s = None"
    by (simp add: py_in_def find_str_None)
  then show ?thesis by (simp add: PStr index_method_def)
qed (simp_all add: index_method_def)

lemma find_category_first:
  "find_category ((cat, listed) # rest) stim = ebind (index_method listed stim) (\<lambda>stim_ind. Inr (cat, stim_ind))"
proof (cases "index_method listed stim")
  case (Inl e)
  then show ?thesis by simp
next
  case (Inr i)
  from index_method_nonneg [OF this] have "i \<noteq> - 1" by simp
  then show ?thesis by (simp add: Inr)
qed

text \<open>
  C9: for a call of getMetaData with a stimulus name, the category search never gets past
  the first category: \<open>index\<close> raises instead of returning -1, so the guard
  \<open>stim_ind != -1\<close> never fails and the result is the same whatever categories follow the
  first; and the call raises whenever the stimulus name is not in the first category.
\<close>

theorem category_search:
  assumes "stimuli self = (cat, listed) # rest"
  shows "(\<forall>stim_ind. index_method listed stim = Inr stim_ind \<longrightarrow> stim_ind \<noteq> - 1) \<and>
         (\<forall>rest'. getMetaData (self\<lparr>stimuli := (cat, listed) # rest'\<rparr>) is_sub (Some stim) sensor =
                   getMetaData self is_sub (Some stim) sensor) \<and>
         (py_in stim listed \<noteq> Inr True \<longrightarrow>
            (\<exists>e. getMetaData self is_sub (Some stim) sensor = Inl e))"
proof -
  have guard: "stim_ind \<noteq> - 1" if "index_method listed stim = Inr stim_ind" for stim_ind
    using index_method_nonneg [OF that] by simp
  have indep: "getMetaData (self\<lparr>stimuli := (cat, listed) # rest'\<rparr>) is_sub (Some stim) sensor =
      getMetaData self is_sub (Some stim) sensor" for rest'
    by (simp add: getMetaData_def assms find_category_first del: find_category.simps)
  have raises: "\<exists>e. getMetaData self is_sub (Some stim) sensor = Inl e" if "py_in stim listed \<noteq> Inr True"
  proof -
    from index_method_absent [OF that] obtain e where "index_method listed stim = Inl e" ..
    then show ?thesis
      by (cases "list_index is_sub (subjects self)")
        (simp_all add: getMetaData_def assms find_category_first del: find_category.simps)
  qed
  from guard indep raises show ?thesis by blast
qed

theorem category_search_witness:
  "stimuli demo_listed = (PStr ''Alpha'', PList [PStr ''a1'']) # [(PStr ''Beta'', PList [PStr ''b1''])] \<and>
   py_in ''b1'' (PList [PStr ''a1'']) = Inr False \<and>
   getMetaData demo_listed (\<lambda>sub. name sub = PStr ''S1'') (Some ''b1'') ''EyeTracker'' = Inl ValueError \<and>
   getMetaData (demo_listed\<lparr>stimuli := [(PStr ''Alpha'', PList [PStr ''a1''])]\<rparr>)
     (\<lambda>sub. name sub = PStr ''S1'') (Some ''b1'') ''EyeTracker'' = Inl ValueError"
proof -
  have st: "stimuli demo_listed = (PStr ''Alpha'', PList [PStr ''a1'']) # [(PStr ''Beta'', PList [PStr ''b1''])]"
    by (simp add: demo_listed_def)
  from category_search [OF st, where is_sub = "\<lambda>sub. name sub = PStr ''S1''" and stim = "''b1''"
      and sensor = "''EyeTracker''"]
  show ?thesis
    by (simp add: st py_in_def)
      (simp add: getMetaData_def demo_listed_def demo_defs list_index_def index_method_def)
qed


end
